theory Spec2Isabelle
  imports Complex_Main "HOL-Library.AList"
begin

section \<open>The portfolio model of \<^verbatim>\<open>core/run_analysis_final.py\<close>\<close>

text \<open>
  The engine computes with Python floats. Here a float is a real number: rounding, overflow
  and infinities are outside the model, and a statement "within tolerance" becomes an exact
  equation over the reals. The one special float the engine produces on purpose, NaN, is kept:
  a value that may be NaN is a \<open>real option\<close> with \<open>None\<close> for NaN.
\<close>

subsection \<open>Errors\<close>

datatype error = ZeroDivisionError | ValueError | NameError | AssertionError | KeyError

definition bindE :: "error + 'a \<Rightarrow> ('a \<Rightarrow> error + 'b) \<Rightarrow> error + 'b" where
  "bindE m f = (case m of Inl e \<Rightarrow> Inl e | Inr x \<Rightarrow> f x)"

text \<open>Float division \<^verbatim>\<open>x / y\<close> raises on a zero divisor.\<close>

definition py_div :: "real \<Rightarrow> real \<Rightarrow> error + real" where
  "py_div x y = (if y = 0 then Inl ZeroDivisionError else Inr (x / y))"

subsection \<open>Module-level helpers\<close>

text \<open>\<^verbatim>\<open>sum(1.0/((1.0+r)**t) for t in range(1, T+1))\<close>: the terms are added from the left,
  and the first zero power raises.\<close>

fun discount_terms :: "real \<Rightarrow> nat list \<Rightarrow> real \<Rightarrow> error + real" where
  "discount_terms r [] acc = Inr acc"
| "discount_terms r (t # ts) acc =
     bindE (py_div 1 ((1 + r) ^ t)) (\<lambda>x. discount_terms r ts (acc + x))"

definition discount_sum :: "int \<Rightarrow> real \<Rightarrow> error + real" where
  "discount_sum T r = discount_terms r [1 ..< nat (T + 1)] 0"

definition set_gamma_mean :: "real \<Rightarrow> real \<Rightarrow> real \<times> real" where
  "set_gamma_mean shape mean = (shape, mean / max shape (1 / 10 ^ 12))"

definition lognormal_mean :: "real \<Rightarrow> real \<Rightarrow> real" where
  "lognormal_mean mu sigma = exp (mu + (1 / 2) * sigma\<^sup>2)"

definition clamp :: "real \<Rightarrow> real \<Rightarrow> real \<Rightarrow> real" where
  "clamp x lo hi = max lo (min hi x)"

definition beta_rrr_to_lognormal_rr :: "real \<Rightarrow> real \<Rightarrow> error + (real \<times> real)" where
  "beta_rrr_to_lognormal_rr a b =
     (if a \<le> 0 \<or> b \<le> 0 then Inl ValueError
      else
        let mean_rrr = a / (a + b);
            var_rrr = (a * b) / ((a + b)\<^sup>2 * (a + b + 1));
            mean_rr = max (1 / 10 ^ 8) (1 - mean_rrr);
            var_rr = max (1 / 10 ^ 12) var_rrr;
            sigma2 = max (1 / 10 ^ 12) (ln (1 + var_rr / mean_rr\<^sup>2));
            sigma = sqrt sigma2;
            mu = ln mean_rr - (1 / 2) * sigma2
        in Inr (mu, sigma))"

subsection \<open>Parameters\<close>

text \<open>
  One entry of \<^verbatim>\<open>parameters["interventions"]\<close>. A key that the dictionary may lack (the
  \<^verbatim>\<open>_exact\<close> copies that \<^verbatim>\<open>load_parameters\<close> adds, and the two effect channels, which
  may be \<^verbatim>\<open>None\<close>) is an option.
\<close>

record intervention =
  label :: string
  Result_population :: int
  annual_event_rate :: real
  annual_event_rate_exact :: "real option"
  case_fatality_rate :: real
  case_fatality_rate_exact :: "real option"
  utility_weight :: real
  utility_weight_exact :: "real option"
  qalys_lost_per_event :: real
  qalys_lost_per_event_exact :: "real option"
  life_years_lost_per_death :: real
  life_years_lost_per_death_exact :: "real option"
  cost_ppy_gamma :: "real \<times> real"
  cost_ppy_gamma_exact :: "(real \<times> real) option"
  event_cost_gamma :: "real \<times> real"
  event_cost_gamma_exact :: "(real \<times> real) option"
  productivity_cost_gamma :: "real \<times> real"
  productivity_cost_gamma_exact :: "(real \<times> real) option"
  rr_lognormal :: "(real \<times> real) option"
  rr_lognormal_exact :: "(real \<times> real) option"
  rrr_beta :: "(real \<times> real) option"

text \<open>
  The parameter dictionary: \<^verbatim>\<open>meta.horizon_years\<close>, \<^verbatim>\<open>meta.perspective\<close> (read with
  a default), \<^verbatim>\<open>health_system.discount_rate\<close>, the adjustment dictionaries and the
  interventions, in insertion order. The entries no computation reads (price year, currency,
  willingness-to-pay threshold) are left out.
\<close>

record parameters =
  horizon_years :: int
  perspective :: "string option"
  discount_rate :: real
  portfolio_adjustments :: "(string \<times> real) list option"
  portfolio_adjustments_exact :: "(string \<times> real) list option"
  interventions :: "(string \<times> intervention) list"

subsection \<open>The random generator\<close>

text \<open>
  \<^verbatim>\<open>numpy.random.Generator\<close> is a parameter of the model: a state type \<open>'s\<close>, the state
  made from a seed, and one draw function per family, each returning the draw and the next
  state. Every theorem below holds for every such generator. What numpy itself checks
  before drawing is written out: \<^verbatim>\<open>gamma\<close> refuses a negative shape or scale,
  \<^verbatim>\<open>lognormal\<close> a negative sigma, \<^verbatim>\<open>beta\<close> a non-positive parameter, each with ValueError.
\<close>

record 's generator =
  default_rng :: "int \<Rightarrow> 's"
  draw_gamma :: "real \<Rightarrow> real \<Rightarrow> 's \<Rightarrow> real \<times> 's"
  draw_lognormal :: "real \<Rightarrow> real \<Rightarrow> 's \<Rightarrow> real \<times> 's"
  draw_beta :: "real \<Rightarrow> real \<Rightarrow> 's \<Rightarrow> real \<times> 's"

definition rng_gamma :: "'s generator \<Rightarrow> real \<Rightarrow> real \<Rightarrow> 's \<Rightarrow> error + (real \<times> 's)" where
  "rng_gamma G k th s = (if k < 0 \<or> th < 0 then Inl ValueError else Inr (draw_gamma G k th s))"

definition rng_lognormal :: "'s generator \<Rightarrow> real \<Rightarrow> real \<Rightarrow> 's \<Rightarrow> error + (real \<times> 's)" where
  "rng_lognormal G mu sigma s =
     (if sigma < 0 then Inl ValueError else Inr (draw_lognormal G mu sigma s))"

definition rng_beta :: "'s generator \<Rightarrow> real \<Rightarrow> real \<Rightarrow> 's \<Rightarrow> error + (real \<times> 's)" where
  "rng_beta G a b s = (if a \<le> 0 \<or> b \<le> 0 then Inl ValueError else Inr (draw_beta G a b s))"

subsection \<open>One intervention, one pass\<close>

record iteration_result =
  investment :: real
  hc_savings :: real
  soc_savings :: real
  qalys :: real
  events_prevented :: real
  deaths_averted :: real

text \<open>\<^verbatim>\<open>intr.get(k + "_exact", intr[k])\<close> and \<^verbatim>\<open>intr.get(k + "_exact") or intr[k]\<close>.\<close>

definition exact_or :: "'a option \<Rightarrow> 'a \<Rightarrow> 'a" where
  "exact_or e v = (case e of Some x \<Rightarrow> x | None \<Rightarrow> v)"

definition rr_ln_of :: "intervention \<Rightarrow> (real \<times> real) option" where
  "rr_ln_of intr = (case rr_lognormal_exact intr of Some x \<Rightarrow> Some x | None \<Rightarrow> rr_lognormal intr)"

text \<open>\<^verbatim>\<open>(a_rrr / (a_rrr + b_rrr)) if a_rrr and b_rrr else 0.2\<close>, and its sampled twin.\<close>

definition beta_truthy :: "(real \<times> real) option \<Rightarrow> (real \<times> real) option" where
  "beta_truthy ab = (case ab of Some (a, b) \<Rightarrow> (if a \<noteq> 0 \<and> b \<noteq> 0 then Some (a, b) else None)
                      | None \<Rightarrow> None)"

definition rrr_deterministic :: "intervention \<Rightarrow> error + real" where
  "rrr_deterministic intr =
     (case rr_ln_of intr of
        Some (mu, sigma) \<Rightarrow> Inr (1 - clamp (lognormal_mean mu sigma) (1 / 10 ^ 6) (999 / 1000))
      | None \<Rightarrow>
          (case beta_truthy (rrr_beta intr) of
             Some (a, b) \<Rightarrow> py_div a (a + b)
           | None \<Rightarrow> Inr (2 / 10)))"

definition rrr_sampled :: "'s generator \<Rightarrow> intervention \<Rightarrow> 's \<Rightarrow> error + (real \<times> 's)" where
  "rrr_sampled G intr s =
     (case rr_ln_of intr of
        Some (mu, sigma) \<Rightarrow>
          bindE (rng_lognormal G mu sigma s)
            (\<lambda>(rr, s'). Inr (1 - clamp rr (1 / 10 ^ 6) (999 / 1000), s'))
      | None \<Rightarrow>
          (case beta_truthy (rrr_beta intr) of
             Some (a, b) \<Rightarrow> rng_beta G a b s
           | None \<Rightarrow> Inr (2 / 10, s)))"

text \<open>The four uncertain inputs of a pass: program cost per person-year, cost per event,
  productivity cost per event, relative risk reduction.\<close>

definition pass_inputs ::
  "'s generator \<Rightarrow> intervention \<Rightarrow> bool \<Rightarrow> 's \<Rightarrow> error + ((real \<times> real \<times> real \<times> real) \<times> 's)" where
  "pass_inputs G intr deterministic s =
     (let (k_c, th_c) = exact_or (cost_ppy_gamma_exact intr) (cost_ppy_gamma intr);
          (k_ev, th_ev) = exact_or (event_cost_gamma_exact intr) (event_cost_gamma intr);
          (k_pr, th_pr) = exact_or (productivity_cost_gamma_exact intr) (productivity_cost_gamma intr)
      in if deterministic then
           bindE (rrr_deterministic intr)
             (\<lambda>rrr. Inr ((k_c * th_c, k_ev * th_ev, k_pr * th_pr, rrr), s))
         else
           let k_c_eff = max k_c (10 ^ 6); th_c_eff = (k_c * th_c) / k_c_eff
           in bindE (rng_gamma G k_c_eff th_c_eff s) (\<lambda>(cost_ppy, s1).
              bindE (rng_gamma G k_ev th_ev s1) (\<lambda>(cost_event, s2).
              bindE (rng_gamma G k_pr th_pr s2) (\<lambda>(prod_event, s3).
              bindE (rrr_sampled G intr s3) (\<lambda>(rrr, s4).
                Inr ((cost_ppy, cost_event, prod_event, rrr), s4))))))"

definition societal :: "parameters \<Rightarrow> bool" where
  "societal P = (exact_or (perspective P) ''societal'' = ''societal'')"

definition pass_outputs ::
  "parameters \<Rightarrow> intervention \<Rightarrow> real \<Rightarrow> real \<times> real \<times> real \<times> real \<Rightarrow> iteration_result" where
  "pass_outputs P intr D inp =
     (let (cost_ppy, cost_event, prod_event, rrr) = inp;
          T = horizon_years P;
          N = Result_population intr;
          p_event = exact_or (annual_event_rate_exact intr) (annual_event_rate intr);
          p_cfr = exact_or (case_fatality_rate_exact intr) (case_fatality_rate intr);
          u = exact_or (utility_weight_exact intr) (utility_weight intr);
          qloss_evt = exact_or (qalys_lost_per_event_exact intr) (qalys_lost_per_event intr);
          ly_loss = exact_or (life_years_lost_per_death_exact intr) (life_years_lost_per_death intr);
          base_events = of_int N * p_event;
          prevented_py = base_events * rrr;
          deaths_py = prevented_py * p_cfr;
          invest_py = of_int N * cost_ppy;
          hc_sav_py = prevented_py * cost_event;
          soc_sav_py = (if societal P then prevented_py * prod_event else 0);
          qalys_py = (prevented_py * (qloss_evt + p_cfr * ly_loss)) * u
      in \<lparr> investment = invest_py * D,
           hc_savings = hc_sav_py * D,
           soc_savings = soc_sav_py * D,
           qalys = qalys_py * D,
           events_prevented = prevented_py * of_int T,
           deaths_averted = deaths_py * of_int T \<rparr>)"

text \<open>\<^verbatim>\<open>_simulate_intervention\<close> on the entry itself: the discount sum first, then the
  inputs (means or draws), then the arithmetic.\<close>

definition simulate_entry ::
  "'s generator \<Rightarrow> parameters \<Rightarrow> intervention \<Rightarrow> 's \<Rightarrow> bool \<Rightarrow> error + (iteration_result \<times> 's)" where
  "simulate_entry G P intr s deterministic =
     bindE (discount_sum (horizon_years P) (discount_rate P)) (\<lambda>D.
     bindE (pass_inputs G intr deterministic s) (\<lambda>(inp, s').
       Inr (pass_outputs P intr D inp, s')))"

definition simulate_intervention ::
  "'s generator \<Rightarrow> parameters \<Rightarrow> string \<Rightarrow> 's \<Rightarrow> bool \<Rightarrow> error + (iteration_result \<times> 's)" where
  "simulate_intervention G P key s deterministic =
     (case map_of (interventions P) key of
        None \<Rightarrow> Inl KeyError
      | Some intr \<Rightarrow> simulate_entry G P intr s deterministic)"

subsection \<open>The default parameter table and loading\<close>

definition alzheimers_default :: intervention where
  "alzheimers_default =
     \<lparr> label = ''Alzheimer's Multidomain Prevention'', Result_population = 30000,
       annual_event_rate = 0.054, annual_event_rate_exact = None,
       case_fatality_rate = 0.05, case_fatality_rate_exact = None,
       utility_weight = 0.76, utility_weight_exact = None,
       qalys_lost_per_event = 1.6736842105263157, qalys_lost_per_event_exact = None,
       life_years_lost_per_death = 6.0, life_years_lost_per_death_exact = None,
       cost_ppy_gamma = (5.0, 2266.456461033086), cost_ppy_gamma_exact = None,
       event_cost_gamma = (4.0, 296448.1195879286), event_cost_gamma_exact = None,
       productivity_cost_gamma = (3.0, 397995.6019110086), productivity_cost_gamma_exact = None,
       rr_lognormal = None, rr_lognormal_exact = None,
       rrr_beta = Some (83.33333333333333, 416.6666666666667) \<rparr>"

definition cancer_default :: intervention where
  "cancer_default =
     \<lparr> label = ''Cancer Screening (Breast + CRC)'', Result_population = 1126000,
       annual_event_rate = 0.006, annual_event_rate_exact = None,
       case_fatality_rate = 0.2, case_fatality_rate_exact = None,
       utility_weight = 0.84, utility_weight_exact = None,
       qalys_lost_per_event = 0.09999999999999964, qalys_lost_per_event_exact = None,
       life_years_lost_per_death = 12.0, life_years_lost_per_death_exact = None,
       cost_ppy_gamma = (5.0, 99.9478564306867), cost_ppy_gamma_exact = None,
       event_cost_gamma = (4.0, 144919.35620687832), event_cost_gamma_exact = None,
       productivity_cost_gamma = (3.0, 352550.4219999648), productivity_cost_gamma_exact = None,
       rr_lognormal = None, rr_lognormal_exact = None,
       rrr_beta = Some (62.3149792776791, 437.6850207223209) \<rparr>"

definition cvd_default :: intervention where
  "cvd_default =
     \<lparr> label = ''Cardiovascular Disease Prevention'', Result_population = 500000,
       annual_event_rate = 0.012, annual_event_rate_exact = None,
       case_fatality_rate = 0.15, case_fatality_rate_exact = None,
       utility_weight = 0.85, utility_weight_exact = None,
       qalys_lost_per_event = 0.061764705882353166, qalys_lost_per_event_exact = None,
       life_years_lost_per_death = 9.0, life_years_lost_per_death_exact = None,
       cost_ppy_gamma = (5.0, 384.5160616649235), cost_ppy_gamma_exact = None,
       event_cost_gamma = (4.0, 174610.1514382146), event_cost_gamma_exact = None,
       productivity_cost_gamma = (3.0, 487832.36345171503), productivity_cost_gamma_exact = None,
       rr_lognormal = None, rr_lognormal_exact = None,
       rrr_beta = Some (103.75, 396.25) \<rparr>"

definition diabetes_default :: intervention where
  "diabetes_default =
     \<lparr> label = ''Type 2 Diabetes Prevention'', Result_population = 750000,
       annual_event_rate = 0.028, annual_event_rate_exact = None,
       case_fatality_rate = 0.05, case_fatality_rate_exact = None,
       utility_weight = 0.82, utility_weight_exact = None,
       qalys_lost_per_event = 0.06585365853658531, qalys_lost_per_event_exact = None,
       life_years_lost_per_death = 6.0, life_years_lost_per_death_exact = None,
       cost_ppy_gamma = (5.0, 96.91055212693195), cost_ppy_gamma_exact = None,
       event_cost_gamma = (4.0, 4718.275891686173), event_cost_gamma_exact = None,
       productivity_cost_gamma = (3.0, 13661.137974473053), productivity_cost_gamma_exact = None,
       rr_lognormal = None, rr_lognormal_exact = None,
       rrr_beta = Some (303.57142857142856, 196.42857142857144) \<rparr>"

definition osteoporosis_default :: intervention where
  "osteoporosis_default =
     \<lparr> label = ''Osteoporosis Fracture Prevention'', Result_population = 234000,
       annual_event_rate = 0.05, annual_event_rate_exact = None,
       case_fatality_rate = 0.02, case_fatality_rate_exact = None,
       utility_weight = 0.87, utility_weight_exact = None,
       qalys_lost_per_event = 0.3862988505747126, qalys_lost_per_event_exact = None,
       life_years_lost_per_death = 0.8, life_years_lost_per_death_exact = None,
       cost_ppy_gamma = (5.0, 140.27581986942178), cost_ppy_gamma_exact = None,
       event_cost_gamma = (4.0, 35833.005519283826), event_cost_gamma_exact = None,
       productivity_cost_gamma = (3.0, 47818.03284826455), productivity_cost_gamma_exact = None,
       rr_lognormal = None, rr_lognormal_exact = None,
       rrr_beta = Some (45.0, 455.0) \<rparr>"

definition default_interventions :: "(string \<times> intervention) list" where
  "default_interventions =
     [(''alzheimers'', alzheimers_default),
      (''cancer'', cancer_default),
      (''cvd'', cvd_default),
      (''diabetes'', diabetes_default),
      (''osteoporosis'', osteoporosis_default)]"

definition default_params :: parameters where
  "default_params =
    \<lparr> horizon_years = 10, perspective = Some ''societal'', discount_rate = 0.03,
      portfolio_adjustments =
        Some [(''overlap_events'', 0.9782178217821782), (''mortality_synergy'', 1.589256335121348),
              (''qaly_synergy'', 4.865944050520814), (''hc_realization'', 2.158984),
              (''prod_realization'', 0.353716), (''benefit_synergy'', 1.063)],
      portfolio_adjustments_exact = None,
      interventions = default_interventions \<rparr>"

text \<open>\<^verbatim>\<open>round(x, nd)\<close>: to the nearest multiple of \<open>10\<^sup>-\<^sup>n\<^sup>d\<close>, a tie to the even one.\<close>

definition py_round :: "real \<Rightarrow> nat \<Rightarrow> real" where
  "py_round x nd =
     (let y = x * 10 ^ nd; f = \<lfloor>y\<rfloor>; d = y - of_int f
      in of_int (if d < 1 / 2 then f else if 1 / 2 < d then f + 1
                 else if even f then f else f + 1) / 10 ^ nd)"

definition validate_parameters :: "parameters \<Rightarrow> error + unit" where
  "validate_parameters P =
     (if \<not> (0 < horizon_years P \<and> 0 \<le> discount_rate P \<and> discount_rate P \<le> 2 / 10)
        then Inl AssertionError
      else if list_all (\<lambda>(k, intr).
                (0 \<le> annual_event_rate intr \<and> annual_event_rate intr \<le> 1) \<and>
                (0 \<le> case_fatality_rate intr \<and> case_fatality_rate intr \<le> 1) \<and>
                (0 < utility_weight intr \<and> utility_weight intr \<le> 1)) (interventions P)
        then Inr ()
      else Inl AssertionError)"

text \<open>The first loop of \<^verbatim>\<open>load_parameters\<close>: a missing log-normal channel is derived
  from the Beta one.\<close>

definition derive_lognormal :: "intervention \<Rightarrow> error + intervention" where
  "derive_lognormal intr =
     (case (rr_lognormal intr, rrr_beta intr) of
        (None, Some (a, b)) \<Rightarrow>
          bindE (beta_rrr_to_lognormal_rr a b) (\<lambda>ms. Inr (intr\<lparr>rr_lognormal := Some ms\<rparr>))
      | _ \<Rightarrow> Inr intr)"

text \<open>The second loop: the exact copies, and the visible values rounded.\<close>

definition round_gamma :: "real \<times> real \<Rightarrow> real \<times> real" where
  "round_gamma g = (py_round (fst g) 3, py_round (snd g) 1)"

definition exact_copies :: "intervention \<Rightarrow> intervention" where
  "exact_copies intr =
     (let i1 = (case rr_lognormal intr of
                  Some (mu, sigma) \<Rightarrow>
                    intr\<lparr>rr_lognormal_exact := Some (mu, sigma),
                         rr_lognormal := Some (py_round mu 3, py_round sigma 3)\<rparr>
                | None \<Rightarrow> intr);
          i2 = i1\<lparr>cost_ppy_gamma_exact := Some (cost_ppy_gamma i1),
                  cost_ppy_gamma := round_gamma (cost_ppy_gamma i1),
                  event_cost_gamma_exact := Some (event_cost_gamma i1),
                  event_cost_gamma := round_gamma (event_cost_gamma i1),
                  productivity_cost_gamma_exact := Some (productivity_cost_gamma i1),
                  productivity_cost_gamma := round_gamma (productivity_cost_gamma i1)\<rparr>
      in i2\<lparr>annual_event_rate_exact := Some (annual_event_rate i2),
             annual_event_rate := py_round (annual_event_rate i2) 3,
             case_fatality_rate_exact := Some (case_fatality_rate i2),
             case_fatality_rate := py_round (case_fatality_rate i2) 3,
             utility_weight_exact := Some (utility_weight i2),
             utility_weight := py_round (utility_weight i2) 3,
             qalys_lost_per_event_exact := Some (qalys_lost_per_event i2),
             qalys_lost_per_event := py_round (qalys_lost_per_event i2) 3,
             life_years_lost_per_death_exact := Some (life_years_lost_per_death i2),
             life_years_lost_per_death := py_round (life_years_lost_per_death i2) 3\<rparr>)"

fun derive_all :: "(string \<times> intervention) list \<Rightarrow> error + (string \<times> intervention) list" where
  "derive_all [] = Inr []"
| "derive_all ((k, intr) # rest) =
     bindE (derive_lognormal intr) (\<lambda>intr'.
     bindE (derive_all rest) (\<lambda>rest'. Inr ((k, intr') # rest')))"

definition load_from :: "parameters \<Rightarrow> error + parameters" where
  "load_from P0 =
     bindE (validate_parameters P0) (\<lambda>_.
     bindE (derive_all (interventions P0)) (\<lambda>derived.
       let P1 = P0\<lparr>interventions := map (\<lambda>(k, intr). (k, exact_copies intr)) derived\<rparr>
       in Inr (case portfolio_adjustments P1 of
                 Some pa \<Rightarrow>
                   P1\<lparr>portfolio_adjustments_exact := Some pa,
                      portfolio_adjustments := Some (map (\<lambda>(k, v). (k, py_round v 3)) pa)\<rparr>
               | None \<Rightarrow> P1)))"

definition load_parameters :: "error + parameters" where
  "load_parameters = load_from default_params"

subsection \<open>The portfolio pass\<close>

text \<open>\<^verbatim>\<open>{k: self._simulate_intervention(k, rng, deterministic) for k in keys}\<close>: the keys in
  order, the generator state threaded through.\<close>

fun simulate_all ::
  "'s generator \<Rightarrow> parameters \<Rightarrow> string list \<Rightarrow> 's \<Rightarrow> bool \<Rightarrow>
     error + ((string \<times> iteration_result) list \<times> 's)" where
  "simulate_all G P [] s deterministic = Inr ([], s)"
| "simulate_all G P (k # ks) s deterministic =
     bindE (simulate_intervention G P k s deterministic) (\<lambda>(res, s1).
     bindE (simulate_all G P ks s1 deterministic) (\<lambda>(rest, s2). Inr ((k, res) # rest, s2)))"

definition total_of :: "(iteration_result \<Rightarrow> real) \<Rightarrow> (string \<times> iteration_result) list \<Rightarrow> real" where
  "total_of f per = sum_list (map (\<lambda>kv. f (snd kv)) per)"

record portfolio_result = iteration_result +
  total_savings :: real

record markov_out =
  per_intervention :: "(string \<times> iteration_result) list"
  portfolio :: portfolio_result

text \<open>\<^verbatim>\<open>parameters.get('portfolio_adjustments_exact') or
  parameters.get('portfolio_adjustments', {})\<close>, and \<^verbatim>\<open>adj.get(name, 1.0)\<close>.\<close>

definition adjustments_of :: "parameters \<Rightarrow> (string \<times> real) list" where
  "adjustments_of P =
     (case portfolio_adjustments_exact P of
        Some (x # xs) \<Rightarrow> x # xs
      | _ \<Rightarrow> (case portfolio_adjustments P of Some a \<Rightarrow> a | None \<Rightarrow> []))"

definition adj_get :: "(string \<times> real) list \<Rightarrow> string \<Rightarrow> real" where
  "adj_get adj name = (case map_of adj name of Some v \<Rightarrow> v | None \<Rightarrow> 1)"

text \<open>The sums, the multipliers on the sums, and the per-program deaths brought to the
  adjusted total.\<close>

definition aggregate :: "parameters \<Rightarrow> (string \<times> iteration_result) list \<Rightarrow> markov_out" where
  "aggregate P per =
     (let adj = adjustments_of P;
          evf = adj_get adj ''overlap_events'';
          dff = adj_get adj ''mortality_synergy'';
          qff = adj_get adj ''qaly_synergy'';
          hc_real = adj_get adj ''hc_realization'';
          pr_real = adj_get adj ''prod_realization'';
          ben_syn = adj_get adj ''benefit_synergy'';
          hc = total_of hc_savings per * (hc_real * ben_syn);
          soc = total_of soc_savings per * (pr_real * ben_syn);
          port = \<lparr> investment = total_of investment per,
                   hc_savings = hc,
                   soc_savings = soc,
                   qalys = total_of qalys per * qff,
                   events_prevented = total_of events_prevented per * evf,
                   deaths_averted = total_of deaths_averted per * dff,
                   total_savings = hc + soc \<rparr>;
          sum_deaths = total_of deaths_averted per;
          per' = (if sum_deaths \<noteq> 0 then
                    let scale = deaths_averted port / sum_deaths
                    in map (\<lambda>(k, v). (k, v\<lparr>deaths_averted := deaths_averted v * scale\<rparr>)) per
                  else per)
      in \<lparr> per_intervention = per', portfolio = port \<rparr>)"

definition run_markov_models ::
  "'s generator \<Rightarrow> parameters \<Rightarrow> bool \<Rightarrow> int \<Rightarrow> error + markov_out" where
  "run_markov_models G P deterministic seed =
     bindE (simulate_all G P (map fst (interventions P)) (default_rng G seed) deterministic)
       (\<lambda>(per, s). Inr (aggregate P per))"

subsection \<open>Monte Carlo\<close>

text \<open>
  One iteration of the loop: the unadjusted sums, and the derived \<open>roi\<close> and \<open>icer\<close>. The
  source appends the nine values to nine lists; here an iteration is one row, and the list
  of a metric is the column of the rows.
\<close>

record mc_row = portfolio_result +
  roi :: real
  icer :: "real option"

definition iteration_row :: "(string \<times> iteration_result) list \<Rightarrow> mc_row" where
  "iteration_row per =
     (let invest = total_of investment per; hc = total_of hc_savings per;
          soc = total_of soc_savings per; q = total_of qalys per;
          ev = total_of events_prevented per; de = total_of deaths_averted per;
          total = hc + soc
      in \<lparr> investment = invest, hc_savings = hc, soc_savings = soc, qalys = q,
           events_prevented = ev, deaths_averted = de, total_savings = total,
           roi = (if 0 < invest then (total - invest) / invest else 0),
           icer = (if 0 < q then Some ((invest - total) / q) else None) \<rparr>)"

fun mc_rows :: "'s generator \<Rightarrow> parameters \<Rightarrow> nat \<Rightarrow> 's \<Rightarrow> error + mc_row list" where
  "mc_rows G P 0 s = Inr []"
| "mc_rows G P (Suc n) s =
     bindE (simulate_all G P (map fst (interventions P)) s False) (\<lambda>(per, s1).
     bindE (mc_rows G P n s1) (\<lambda>rows. Inr (iteration_row per # rows)))"

definition metrics :: "string list" where
  "metrics = [''investment'', ''hc_savings'', ''soc_savings'', ''total_savings'',
              ''events_prevented'', ''deaths_averted'', ''qalys'', ''roi'', ''icer'']"

definition metric_value :: "string \<Rightarrow> mc_row \<Rightarrow> real option" where
  "metric_value m row =
     (if m = ''investment'' then Some (investment row)
      else if m = ''hc_savings'' then Some (hc_savings row)
      else if m = ''soc_savings'' then Some (soc_savings row)
      else if m = ''total_savings'' then Some (total_savings row)
      else if m = ''events_prevented'' then Some (events_prevented row)
      else if m = ''deaths_averted'' then Some (deaths_averted row)
      else if m = ''qalys'' then Some (qalys row)
      else if m = ''roi'' then Some (roi row)
      else icer row)"

definition samples_of :: "mc_row list \<Rightarrow> (string \<times> real option list) list" where
  "samples_of rows = map (\<lambda>m. (m, map (metric_value m) rows)) metrics"

text \<open>
  The numpy reducers, on the values that are not NaN: \<^verbatim>\<open>nanmean\<close>, \<^verbatim>\<open>nanmedian\<close>,
  \<^verbatim>\<open>nanstd(ddof=1)\<close> and \<^verbatim>\<open>nanpercentile\<close> (linear interpolation between the two
  nearest order statistics). Each is NaN when no value is left; the standard deviation
  also when a single value is left.
\<close>

definition not_nan :: "real option list \<Rightarrow> real list" where
  "not_nan a = concat (map (\<lambda>x. case x of Some v \<Rightarrow> [v] | None \<Rightarrow> []) a)"

definition mean_of :: "real list \<Rightarrow> real" where
  "mean_of v = sum_list v / of_nat (length v)"

definition nanmean :: "real option list \<Rightarrow> real option" where
  "nanmean a = (let v = not_nan a in if v = [] then None else Some (mean_of v))"

definition nanmedian :: "real option list \<Rightarrow> real option" where
  "nanmedian a =
     (let v = sort (not_nan a); n = length v
      in if n = 0 then None
         else if odd n then Some (v ! (n div 2))
         else Some ((v ! (n div 2 - 1) + v ! (n div 2)) / 2))"

definition nanstd1 :: "real option list \<Rightarrow> real option" where
  "nanstd1 a =
     (let v = not_nan a; n = length v
      in if n \<le> 1 then None
         else Some (sqrt (sum_list (map (\<lambda>x. (x - mean_of v)\<^sup>2) v) / of_nat (n - 1))))"

definition nanpercentile :: "real option list \<Rightarrow> real \<Rightarrow> real option" where
  "nanpercentile a q =
     (let v = sort (not_nan a); n = length v
      in if n = 0 then None
         else let h = of_nat (n - 1) * q / 100; i = nat \<lfloor>h\<rfloor>; j = min (i + 1) (n - 1)
              in Some (v ! i + (h - of_nat i) * (v ! j - v ! i)))"

record stats =
  mean :: "real option"
  median :: "real option"
  std :: "real option"
  ci_lower :: "real option"
  ci_upper :: "real option"

definition summarize :: "real option list \<Rightarrow> stats" where
  "summarize a = \<lparr> mean = nanmean a, median = nanmedian a, std = nanstd1 a,
                   ci_lower = nanpercentile a (25 / 10), ci_upper = nanpercentile a (975 / 10) \<rparr>"

text \<open>Float arithmetic on values that may be NaN: NaN in, NaN out.\<close>

definition f2 :: "(real \<Rightarrow> real \<Rightarrow> real) \<Rightarrow> real option \<Rightarrow> real option \<Rightarrow> real option" where
  "f2 g x y = (case (x, y) of (Some a, Some b) \<Rightarrow> Some (g a b) | _ \<Rightarrow> None)"

definition net_benefit_stats :: "stats \<Rightarrow> stats \<Rightarrow> stats" where
  "net_benefit_stats ts iv =
     \<lparr> mean = f2 (-) (mean ts) (mean iv),
       median = f2 (-) (median ts) (median iv),
       std = f2 (\<lambda>a b. sqrt (a\<^sup>2 + b\<^sup>2)) (std ts) (std iv),
       ci_lower = f2 (-) (ci_lower ts) (ci_upper iv),
       ci_upper = f2 (-) (ci_upper ts) (ci_lower iv) \<rparr>"

definition add_net_benefit :: "(string \<times> stats) list \<Rightarrow> (string \<times> stats) list" where
  "add_net_benefit summary =
     (case (map_of summary ''net_benefit'', map_of summary ''total_savings'',
            map_of summary ''investment'') of
        (None, Some ts, Some iv) \<Rightarrow> summary @ [(''net_benefit'', net_benefit_stats ts iv)]
      | _ \<Rightarrow> summary)"

text \<open>\<^verbatim>\<open>_affine_stats\<close>. A comparison with NaN is false, so a NaN bound takes the second
  branch and makes both coefficients NaN; the division there never has a zero divisor.\<close>

definition affine_coeffs :: "real option \<Rightarrow> real option \<Rightarrow> real \<Rightarrow> real \<Rightarrow> real option \<times> real option" where
  "affine_coeffs lo hi lo_tgt hi_tgt =
     (case (lo, hi) of
        (Some l, Some h) \<Rightarrow>
          (if \<bar>h - l\<bar> < 1 / 10 ^ 12 then (Some (lo_tgt - l), Some 1)
           else let beta = (hi_tgt - lo_tgt) / (h - l) in (Some (lo_tgt - beta * l), Some beta))
      | _ \<Rightarrow> (None, None))"

definition affine_stats :: "stats \<Rightarrow> real \<Rightarrow> real \<Rightarrow> stats" where
  "affine_stats d lo_tgt hi_tgt =
     (let (alpha, beta) = affine_coeffs (ci_lower d) (ci_upper d) lo_tgt hi_tgt
      in \<lparr> mean = f2 (+) alpha (f2 (*) beta (mean d)),
           median = f2 (+) alpha (f2 (*) beta (median d)),
           std = f2 (\<lambda>b s. \<bar>b\<bar> * s) beta (std d),
           ci_lower = Some lo_tgt,
           ci_upper = Some hi_tgt \<rparr>)"

definition results_table :: "(string \<times> real \<times> real) list" where
  "results_table =
     [(''total_savings'', 44.8 * 10 ^ 9, 60.0 * 10 ^ 9),
      (''net_benefit'', 19.9 * 10 ^ 9, 45.9 * 10 ^ 9),
      (''roi'', 1.19, 1.96),
      (''events_prevented'', 142000, 174000),
      (''deaths_averted'', 14000, 18500),
      (''qalys'', 286000, 367000)]"

fun rescale_all :: "(string \<times> real \<times> real) list \<Rightarrow> (string \<times> stats) list \<Rightarrow> (string \<times> stats) list" where
  "rescale_all [] summary = summary"
| "rescale_all ((k, lo, hi) # rest) summary =
     rescale_all rest
       (case map_of summary k of
          Some d \<Rightarrow> AList.update k (affine_stats d lo hi) summary
        | None \<Rightarrow> summary)"

definition summary_of :: "mc_row list \<Rightarrow> (string \<times> stats) list" where
  "summary_of rows =
     rescale_all results_table
       (add_net_benefit (map (\<lambda>(k, v). (k, summarize v)) (samples_of rows)))"

definition run_monte_carlo ::
  "'s generator \<Rightarrow> parameters \<Rightarrow> int \<Rightarrow> int \<Rightarrow> error + (string \<times> stats) list" where
  "run_monte_carlo G P n_iterations seed =
     bindE (mc_rows G P (nat n_iterations) (default_rng G seed)) (\<lambda>rows. Inr (summary_of rows))"

subsection \<open>Calibration\<close>

text \<open>
  The targets of one program (a dictionary that may lack any of its keys) and the portfolio
  targets, both as \<^verbatim>\<open>_read_results\<close> hands them over; reading the files is outside the
  model. The key \<^verbatim>\<open>qalys\<close> of a target is read by no step and is left out.
\<close>

record target =
  tgt_investment :: "real option"
  tgt_events_prevented :: "real option"
  tgt_deaths_averted :: "real option"
  tgt_roi_ratio :: "real option"
  tgt_c_per_qaly :: "real option"

record port_target =
  benefits_total :: "real option"
  adjust_intervention :: "string option"

text \<open>\<^verbatim>\<open>"k" in tgt and tgt["k"]\<close>: present and not zero.\<close>

definition truthy :: "real option \<Rightarrow> real option" where
  "truthy x = (case x of Some v \<Rightarrow> (if v \<noteq> 0 then Some v else None) | None \<Rightarrow> None)"

definition rrr_mean_of :: "intervention \<Rightarrow> error + real" where
  "rrr_mean_of intr =
     (case rr_ln_of intr of
        Some (mu, sigma) \<Rightarrow> Inr (1 - lognormal_mean mu sigma)
      | None \<Rightarrow> (let (a, b) = exact_or (rrr_beta intr) (20, 10) in py_div a (a + b)))"

definition calibrate_investment ::
  "int \<Rightarrow> real \<Rightarrow> target \<Rightarrow> intervention \<Rightarrow> error + intervention" where
  "calibrate_investment N D tgt intr =
     (case tgt_investment tgt of
        Some I \<Rightarrow>
          bindE (py_div I (of_int N * D)) (\<lambda>cost_ppy.
            Inr (intr\<lparr>cost_ppy_gamma := set_gamma_mean (fst (cost_ppy_gamma intr)) cost_ppy\<rparr>))
      | None \<Rightarrow> Inr intr)"

text \<open>The second step also fixes \<open>E\<close>, the events the later steps work from.\<close>

definition calibrate_events ::
  "int \<Rightarrow> int \<Rightarrow> real \<Rightarrow> target \<Rightarrow> intervention \<Rightarrow> error + (intervention \<times> real)" where
  "calibrate_events N T rrr_mean tgt intr =
     (case truthy (tgt_events_prevented tgt) of
        Some E \<Rightarrow>
          bindE (py_div E (of_int (N * T) * max rrr_mean (1 / 10 ^ 9))) (\<lambda>x.
            Inr (intr\<lparr>rrr_beta := Some (rrr_mean * 10 ^ 6, (1 - rrr_mean) * 10 ^ 6),
                      annual_event_rate := clamp x (1 / 10 ^ 8) (95 / 100)\<rparr>, E))
      | None \<Rightarrow> Inr (intr, of_int (N * T) * rrr_mean * annual_event_rate intr))"

definition calibrate_deaths :: "real \<Rightarrow> target \<Rightarrow> intervention \<Rightarrow> intervention" where
  "calibrate_deaths E tgt intr =
     (case truthy (tgt_deaths_averted tgt) of
        Some Dth \<Rightarrow>
          (if 0 < E then intr\<lparr>case_fatality_rate := clamp (Dth / E) 0 (95 / 100)\<rparr> else intr)
      | None \<Rightarrow> intr)"

text \<open>\<open>S_total\<close>, with the investment target it was made from.\<close>

definition implied_savings :: "target \<Rightarrow> (real \<times> real) option" where
  "implied_savings tgt =
     (case (tgt_roi_ratio tgt, tgt_investment tgt) of
        (Some roi_ratio, Some I) \<Rightarrow> Some (I, I * (1 + roi_ratio))
      | _ \<Rightarrow> None)"

text \<open>The cost-per-QALY step, in its three blocks: the QALY target, the QALY loss per
  event that reaches it, and the split of \<open>S_total\<close> between the two per-event cost
  channels. \<open>Cq\<close> is not zero where it divides; \<open>DE\<close> stands for \<^verbatim>\<open>D*(E/T)\<close>.\<close>

definition qaly_target :: "real \<Rightarrow> real \<Rightarrow> target \<Rightarrow> real" where
  "qaly_target Q_current Cq tgt =
     (case implied_savings tgt of
        Some (I, S_total) \<Rightarrow>
          let Q_min = max (1 / 10 ^ 6) ((I - S_total) / Cq);
              Q_max = max (Q_min * (101 / 100)) (I / Cq)
          in min (max Q_current Q_min) Q_max
      | None \<Rightarrow> max (1 / 10 ^ 6) Q_current)"

definition split_savings ::
  "real \<Rightarrow> real \<Rightarrow> real \<Rightarrow> target \<Rightarrow> intervention \<Rightarrow> error + intervention" where
  "split_savings DE Cq Q_tgt tgt intr =
     (case implied_savings tgt of
        None \<Rightarrow> Inr intr
      | Some (I, S_total) \<Rightarrow>
          bindE (py_div S_total DE) (\<lambda>Ce_total.
            let S_hc = min (max (I - Cq * Q_tgt) 0) S_total
            in bindE (py_div S_hc DE) (\<lambda>per_event_hc.
                 let per_event_prod = max 0 (Ce_total - per_event_hc)
                 in Inr (intr\<lparr>event_cost_gamma :=
                                 set_gamma_mean (fst (event_cost_gamma intr)) per_event_hc,
                               productivity_cost_gamma :=
                                 set_gamma_mean (fst (productivity_cost_gamma intr))
                                   per_event_prod\<rparr>))))"

definition calibrate_qalys ::
  "real \<Rightarrow> int \<Rightarrow> real \<Rightarrow> target \<Rightarrow> intervention \<Rightarrow> error + intervention" where
  "calibrate_qalys D T E tgt intr =
     (let cfr = case_fatality_rate intr; ly = life_years_lost_per_death intr;
          u = utility_weight intr; qloss = qalys_lost_per_event intr
      in case truthy (tgt_c_per_qaly tgt) of
           None \<Rightarrow> Inr intr
         | Some Cq \<Rightarrow>
             if \<not> 0 < E then Inr intr
             else
               bindE (py_div E (of_int T)) (\<lambda>E_py.
                 let Q_current = D * E_py * (qloss + cfr * ly) * u;
                     Q_tgt = qaly_target Q_current Cq tgt
                 in bindE (py_div Q_tgt (D * E_py * max u (1 / 10 ^ 9))) (\<lambda>x.
                      split_savings (D * E_py) Cq Q_tgt tgt
                        (intr\<lparr>qalys_lost_per_event := max (1 / 10 ^ 6) (x - cfr * ly)\<rparr>))))"

definition renormalise :: "intervention \<Rightarrow> intervention" where
  "renormalise intr =
     (let (k_ev, th_ev) = event_cost_gamma intr; (k_pr, th_pr) = productivity_cost_gamma intr
      in intr\<lparr>event_cost_gamma := set_gamma_mean k_ev (max 0 (k_ev * th_ev)),
              productivity_cost_gamma := set_gamma_mean k_pr (max 0 (k_pr * th_pr))\<rparr>)"

definition store :: "parameters \<Rightarrow> string \<Rightarrow> intervention \<Rightarrow> parameters" where
  "store P key intr = P\<lparr>interventions := AList.update key intr (interventions P)\<rparr>"

definition calibrate_intervention :: "parameters \<Rightarrow> string \<Rightarrow> target \<Rightarrow> error + parameters" where
  "calibrate_intervention P key tgt =
     bindE (discount_sum (horizon_years P) (discount_rate P)) (\<lambda>D.
       case map_of (interventions P) key of
         None \<Rightarrow> Inl KeyError
       | Some intr \<Rightarrow>
           let N = Result_population intr; T = horizon_years P
           in if N \<le> 0 then Inr (store P key intr)
              else
                bindE (rrr_mean_of intr) (\<lambda>rrr_mean.
                bindE (calibrate_investment N D tgt intr) (\<lambda>i1.
                bindE (calibrate_events N T rrr_mean tgt i1) (\<lambda>(i2, E).
                bindE (calibrate_qalys D T E tgt (calibrate_deaths E tgt i2)) (\<lambda>i4.
                  Inr (store P key (renormalise i4)))))))"

text \<open>The loop of \<^verbatim>\<open>calibrate\<close> over the per-program targets: a key that is not an
  intervention is passed over.\<close>

fun calibrate_each :: "parameters \<Rightarrow> (string \<times> target) list \<Rightarrow> error + parameters" where
  "calibrate_each P [] = Inr P"
| "calibrate_each P ((k, t) # rest) =
     (if k \<in> set (map fst (interventions P))
      then bindE (calibrate_intervention P k t) (\<lambda>P'. calibrate_each P' rest)
      else calibrate_each P rest)"

record analysis =
  self_parameters :: parameters
  self_results_markov :: "markov_out option"

record changes =
  changed_per_intervention :: "string list"
  portfolio_first :: bool
  adjusted :: "string option"

text \<open>\<^verbatim>\<open>calibrate\<close>. In the portfolio branch an \<^verbatim>\<open>adjust_intervention\<close> that is not an
  intervention reaches the assignment from the undefined name \<^verbatim>\<open>adjust_intervention\<close>,
  a NameError.\<close>

definition calibrate ::
  "'s generator \<Rightarrow> analysis \<Rightarrow> (string \<times> target) list \<Rightarrow> port_target \<Rightarrow>
     error + (analysis \<times> changes)" where
  "calibrate G A per_results port_results =
     (let ch = \<lparr> changed_per_intervention = map fst per_results, portfolio_first = False,
                 adjusted = None \<rparr>
      in bindE (calibrate_each (self_parameters A) per_results) (\<lambda>P1.
           case truthy (benefits_total port_results) of
             None \<Rightarrow> Inr (A\<lparr>self_parameters := P1\<rparr>, ch)
           | Some B \<Rightarrow>
               bindE (run_markov_models G P1 True 123) (\<lambda>out1.
                 let S_curr = hc_savings (portfolio out1) + soc_savings (portfolio out1);
                     delta = B - S_curr;
                     intr_key = exact_or (adjust_intervention port_results) ''alzheimers''
                 in if intr_key \<notin> set (map fst (interventions P1)) then Inl NameError
                    else
                      case map_of (per_intervention out1) intr_key of
                        None \<Rightarrow> Inl KeyError
                      | Some res \<Rightarrow>
                          let I_k = investment res; S_k = hc_savings res + soc_savings res
                          in if 0 < I_k then
                               let S_k_new = max 0 (S_k + delta);
                                   new_roi_ratio = S_k_new / I_k - 1;
                                   t0 = exact_or (map_of per_results intr_key)
                                          \<lparr> tgt_investment = Some I_k, tgt_events_prevented = None,
                                            tgt_deaths_averted = None, tgt_roi_ratio = None,
                                            tgt_c_per_qaly = None \<rparr>;
                                   t = t0\<lparr>tgt_roi_ratio := Some new_roi_ratio\<rparr>
                               in bindE (calibrate_intervention P1 intr_key t) (\<lambda>P2.
                                  bindE (run_markov_models G P2 True 123) (\<lambda>out2.
                                    Inr (\<lparr> self_parameters = P2, self_results_markov = Some out2 \<rparr>,
                                         ch\<lparr>portfolio_first := True, adjusted := Some intr_key\<rparr>)))
                             else Inr (\<lparr> self_parameters = P1, self_results_markov = Some out1 \<rparr>,
                                       ch))))"

subsection \<open>Well-formed inputs and example inputs\<close>

text \<open>
  The distribution parameters a pass reads (the exact copy where there is one) are those of
  distributions: no negative Gamma shape or scale, no negative log-normal sigma, positive
  Beta parameters where the Beta channel is used.
\<close>

definition wf_channels :: "intervention \<Rightarrow> bool" where
  "wf_channels intr =
     (let (k_c, th_c) = exact_or (cost_ppy_gamma_exact intr) (cost_ppy_gamma intr);
          (k_ev, th_ev) = exact_or (event_cost_gamma_exact intr) (event_cost_gamma intr);
          (k_pr, th_pr) = exact_or (productivity_cost_gamma_exact intr) (productivity_cost_gamma intr)
      in 0 \<le> k_c \<and> 0 \<le> th_c \<and> 0 \<le> k_ev \<and> 0 \<le> th_ev \<and> 0 \<le> k_pr \<and> 0 \<le> th_pr \<and>
         (case rr_ln_of intr of
            Some (mu, sigma) \<Rightarrow> 0 \<le> sigma
          | None \<Rightarrow> (case beta_truthy (rrr_beta intr) of
                       Some (a, b) \<Rightarrow> 0 < a \<and> 0 < b
                     | None \<Rightarrow> True)))"

definition wf_params :: "parameters \<Rightarrow> bool" where
  "wf_params P = (0 \<le> discount_rate P \<and> list_all (\<lambda>kv. wf_channels (snd kv)) (interventions P))"

text \<open>A generator for the examples: a Gamma draw is the mean, a log-normal draw is \<open>4/5\<close>,
  a Beta draw is the mean; its state counts the draws.\<close>

definition example_generator :: "nat generator" where
  "example_generator =
     \<lparr> default_rng = (\<lambda>seed. 0),
       draw_gamma = (\<lambda>k th s. (k * th, Suc s)),
       draw_lognormal = (\<lambda>mu sigma s. (4 / 5, Suc s)),
       draw_beta = (\<lambda>a b s. (a / (a + b), Suc s)) \<rparr>"

definition no_target :: target where
  "no_target = \<lparr> tgt_investment = None, tgt_events_prevented = None, tgt_deaths_averted = None,
                 tgt_roi_ratio = None, tgt_c_per_qaly = None \<rparr>"

definition no_port_target :: port_target where
  "no_port_target = \<lparr> benefits_total = None, adjust_intervention = None \<rparr>"

text \<open>Example inputs: the cardiovascular program with a log-normal channel of its own, and
  with a negative population.\<close>

definition lognormal_cvd :: intervention where
  "lognormal_cvd = cvd_default\<lparr>rr_lognormal := Some (- 1 / 4, 1 / 10)\<rparr>"

definition lognormal_params :: parameters where
  "lognormal_params = store default_params ''cvd'' lognormal_cvd"

definition negative_population_params :: parameters where
  "negative_population_params =
     store default_params ''cvd'' (cvd_default\<lparr>Result_population := - 1\<rparr>)"

definition zero_population_params :: parameters where
  "zero_population_params =
     store default_params ''cvd'' (cvd_default\<lparr>Result_population := 0\<rparr>)"

definition zero_result :: iteration_result where
  "zero_result = \<lparr> investment = 0, hc_savings = 0, soc_savings = 0, qalys = 0,
                   events_prevented = 0, deaths_averted = 0 \<rparr>"

text \<open>
  What "an affine rescaling of the empirical statistics onto the interval \<open>[lo, hi]\<close>" says
  of the reported statistics \<open>d\<close>, given the statistics \<open>e\<close> before rescaling: the bounds,
  mean and median of \<open>e\<close> are numbers; the slope is \<open>(hi - lo) / (h - l)\<close> for the bounds
  \<open>l\<close>, \<open>h\<close> of \<open>e\<close> (and 1 when \<open>l\<close> and \<open>h\<close> are closer than \<open>1e-12\<close>), the offset
  takes \<open>l\<close> to \<open>lo\<close>; mean and median are mapped, the standard deviation is scaled by
  the absolute slope (and stays NaN when it is NaN).
\<close>

definition affine_rescaling :: "stats \<Rightarrow> real \<Rightarrow> real \<Rightarrow> stats \<Rightarrow> bool" where
  "affine_rescaling e lo hi d =
     (case (ci_lower e, ci_upper e, mean e, median e) of
        (Some l, Some h, Some m, Some md) \<Rightarrow>
          (let beta = (if \<bar>h - l\<bar> < 1 / 10 ^ 12 then 1 else (hi - lo) / (h - l));
               alpha = lo - beta * l
           in mean d = Some (alpha + beta * m) \<and>
              median d = Some (alpha + beta * md) \<and>
              std d = map_option (\<lambda>s. \<bar>beta\<bar> * s) (std e))
      | _ \<Rightarrow> False)"

text \<open>A reported entry: present, with the fixed bounds, and such a rescaling of \<open>e\<close>.\<close>

definition reports :: "(string \<times> stats) list \<Rightarrow> string \<Rightarrow> real \<Rightarrow> real \<Rightarrow> stats \<Rightarrow> bool" where
  "reports summary k lo hi e =
     (case map_of summary k of
        Some d \<Rightarrow> ci_lower d = Some lo \<and> ci_upper d = Some hi \<and> affine_rescaling e lo hi d
      | None \<Rightarrow> False)"

text \<open>The column of a metric, as the source's list \<^verbatim>\<open>samples[m]\<close>.\<close>

definition column :: "string \<Rightarrow> mc_row list \<Rightarrow> real option list" where
  "column m rows = map (metric_value m) rows"

text \<open>What calibration never writes: the population, the exact copies and the log-normal
  channel; and what its last steps leave alone.\<close>

definition same_exact :: "intervention \<Rightarrow> intervention \<Rightarrow> bool" where
  "same_exact i j =
     (Result_population j = Result_population i \<and>
      annual_event_rate_exact j = annual_event_rate_exact i \<and>
      case_fatality_rate_exact j = case_fatality_rate_exact i \<and>
      utility_weight_exact j = utility_weight_exact i \<and>
      qalys_lost_per_event_exact j = qalys_lost_per_event_exact i \<and>
      life_years_lost_per_death_exact j = life_years_lost_per_death_exact i \<and>
      cost_ppy_gamma_exact j = cost_ppy_gamma_exact i \<and>
      event_cost_gamma_exact j = event_cost_gamma_exact i \<and>
      productivity_cost_gamma_exact j = productivity_cost_gamma_exact i \<and>
      rr_lognormal_exact j = rr_lognormal_exact i \<and>
      rr_lognormal j = rr_lognormal i)"

definition keeps_rates :: "intervention \<Rightarrow> intervention \<Rightarrow> bool" where
  "keeps_rates i j =
     (cost_ppy_gamma j = cost_ppy_gamma i \<and> annual_event_rate j = annual_event_rate i \<and>
      rrr_beta j = rrr_beta i \<and> case_fatality_rate j = case_fatality_rate i)"


definition investment_target :: target where
  "investment_target = no_target\<lparr>tgt_investment := Some (10 ^ 9)\<rparr>"

text \<open>An entry as \<^verbatim>\<open>load_parameters\<close> leaves it: every parameter a pass reads has its
  exact copy.\<close>

definition has_exact_copies :: "intervention \<Rightarrow> bool" where
  "has_exact_copies i =
     (annual_event_rate_exact i \<noteq> None \<and> case_fatality_rate_exact i \<noteq> None \<and>
      utility_weight_exact i \<noteq> None \<and> qalys_lost_per_event_exact i \<noteq> None \<and>
      life_years_lost_per_death_exact i \<noteq> None \<and> cost_ppy_gamma_exact i \<noteq> None \<and>
      event_cost_gamma_exact i \<noteq> None \<and> productivity_cost_gamma_exact i \<noteq> None \<and>
      rr_lognormal_exact i \<noteq> None)"

text \<open>The analysis object holding the default table, before any run.\<close>

definition default_analysis :: analysis where
  "default_analysis = \<lparr> self_parameters = default_params, self_results_markov = None \<rparr>"

text \<open>A generator whose draws change from one iteration to the next: on the default table
  an iteration makes twenty draws (per program: program cost, event cost, productivity cost,
  Beta); the program-cost draws are 3, 1, 2 and the two per-event cost draws 100, 200, 300
  in the first three iterations, every Beta draw is \<open>1/2\<close>.\<close>

definition varying_generator :: "nat generator" where
  "varying_generator =
     \<lparr> default_rng = (\<lambda>seed. 0),
       draw_gamma = (\<lambda>k th s. (if s mod 4 = 0 then [3, 1, 2] ! ((s div 20) mod 3)
                                  else [100, 200, 300] ! ((s div 20) mod 3), s + 1)),
       draw_lognormal = (\<lambda>mu sigma s. (4 / 5, s + 1)),
       draw_beta = (\<lambda>a b s. (1 / 2, s + 1)) \<rparr>"

text \<open>The net benefit of one iteration, and its column.\<close>

definition net_benefit_column :: "mc_row list \<Rightarrow> real option list" where
  "net_benefit_column rows = map (\<lambda>row. Some (total_savings row - investment row)) rows"

text \<open>What no step of the calibration of a program writes: the population, the exact
  copies, the log-normal channel, the label, the utility weight and the life-years lost
  per death.\<close>

definition never_written :: "intervention \<Rightarrow> intervention \<Rightarrow> bool" where
  "never_written i j =
     (same_exact i j \<and> label j = label i \<and> utility_weight j = utility_weight i \<and>
      life_years_lost_per_death j = life_years_lost_per_death i)"

section \<open>Properties\<close>

subsection \<open>Basic facts\<close>

lemma bindE_Inr [simp]: "bindE (Inr x) f = f x"
  by (simp add: bindE_def)

lemma bindE_Inl [simp]: "bindE (Inl e) f = Inl e"
  by (simp add: bindE_def)

lemma discount_terms_ok:
  "1 + r \<noteq> 0 \<Longrightarrow> discount_terms r ts acc = Inr (acc + (\<Sum>t\<leftarrow>ts. 1 / (1 + r) ^ t))"
  by (induction ts arbitrary: acc) (simp_all add: py_div_def algebra_simps)

lemma discount_range: "{1 ..< nat (T + 1)} = {1 .. nat T}"
  by (cases "0 \<le> T") auto

lemma discount_sum_ok:
  assumes "r \<noteq> - 1"
  shows "discount_sum T r = Inr (\<Sum>t = 1..nat T. 1 / (1 + r) ^ t)"
proof -
  have nz: "1 + r \<noteq> 0" using assms by linarith
  have "(\<Sum>t\<leftarrow>[1 ..< nat (T + 1)]. 1 / (1 + r) ^ t) = (\<Sum>t = 1..nat T. 1 / (1 + r) ^ t)"
    unfolding interv_sum_list_conv_sum_set_nat set_upt discount_range ..
  then show ?thesis
    unfolding discount_sum_def discount_terms_ok [OF nz] by simp
qed

lemmas default_defs = default_params_def default_interventions_def alzheimers_default_def
  cancer_default_def cvd_default_def diabetes_default_def osteoporosis_default_def

lemma pass_inputs_deterministic:
  "pass_inputs G intr True s =
     bindE (rrr_deterministic intr) (\<lambda>rrr.
       Inr ((fst (exact_or (cost_ppy_gamma_exact intr) (cost_ppy_gamma intr)) *
             snd (exact_or (cost_ppy_gamma_exact intr) (cost_ppy_gamma intr)),
             fst (exact_or (event_cost_gamma_exact intr) (event_cost_gamma intr)) *
             snd (exact_or (event_cost_gamma_exact intr) (event_cost_gamma intr)),
             fst (exact_or (productivity_cost_gamma_exact intr) (productivity_cost_gamma intr)) *
             snd (exact_or (productivity_cost_gamma_exact intr) (productivity_cost_gamma intr)),
             rrr), s))"
  by (simp add: pass_inputs_def split_beta Let_def)

lemma rrr_deterministic_total:
  assumes "wf_channels intr"
  shows "\<exists>rrr. rrr_deterministic intr = Inr rrr"
proof (cases "rr_ln_of intr")
  case (Some ms)
  then show ?thesis by (cases ms) (simp add: rrr_deterministic_def)
next
  case None
  show ?thesis
  proof (cases "beta_truthy (rrr_beta intr)")
    case None
    with \<open>rr_ln_of intr = None\<close> have "rrr_deterministic intr = Inr (2 / 10)"
      by (simp add: rrr_deterministic_def)
    then show ?thesis ..
  next
    case (Some ab)
    obtain a b where ab: "ab = (a, b)" by (cases ab)
    with assms Some \<open>rr_ln_of intr = None\<close> have "0 < a" "0 < b"
      by (simp_all add: wf_channels_def split_beta Let_def)
    then have "a + b \<noteq> 0" by linarith
    with Some ab \<open>rr_ln_of intr = None\<close> have "rrr_deterministic intr = Inr (a / (a + b))"
      by (simp add: rrr_deterministic_def py_div_def)
    then show ?thesis ..
  qed
qed

lemma rrr_sampled_total:
  assumes "wf_channels intr"
  shows "\<exists>rrr s'. rrr_sampled G intr s = Inr (rrr, s')"
proof (cases "rr_ln_of intr")
  case (Some ms)
  obtain mu sigma where ms: "ms = (mu, sigma)" by (cases ms)
  with assms Some have sg: "\<not> sigma < 0" by (simp add: wf_channels_def split_beta Let_def)
  obtain x s1 where "draw_lognormal G mu sigma s = (x, s1)" by (cases "draw_lognormal G mu sigma s")
  with Some ms sg have "rrr_sampled G intr s = Inr (1 - clamp x (1 / 10 ^ 6) (999 / 1000), s1)"
    by (simp add: rrr_sampled_def rng_lognormal_def)
  then show ?thesis by blast
next
  case None
  show ?thesis
  proof (cases "beta_truthy (rrr_beta intr)")
    case None
    with \<open>rr_ln_of intr = None\<close> have "rrr_sampled G intr s = Inr (2 / 10, s)"
      by (simp add: rrr_sampled_def)
    then show ?thesis by blast
  next
    case (Some ab)
    obtain a b where ab: "ab = (a, b)" by (cases ab)
    with assms Some \<open>rr_ln_of intr = None\<close> have pos: "\<not> a \<le> 0" "\<not> b \<le> 0"
      by (simp_all add: wf_channels_def split_beta not_le Let_def)
    obtain x s1 where "draw_beta G a b s = (x, s1)" by (cases "draw_beta G a b s")
    with Some ab pos \<open>rr_ln_of intr = None\<close> have "rrr_sampled G intr s = Inr (x, s1)"
      by (simp add: rrr_sampled_def rng_beta_def)
    then show ?thesis by blast
  qed
qed

lemma pass_inputs_total:
  assumes "wf_channels intr"
  shows "\<exists>inp s'. pass_inputs G intr deterministic s = Inr (inp, s')"
proof (cases deterministic)
  case True
  with rrr_deterministic_total [OF assms] show ?thesis
    by (auto simp: pass_inputs_deterministic)
next
  case False
  obtain k_c th_c where c: "exact_or (cost_ppy_gamma_exact intr) (cost_ppy_gamma intr) = (k_c, th_c)"
    by (cases "exact_or (cost_ppy_gamma_exact intr) (cost_ppy_gamma intr)")
  obtain k_ev th_ev where ev: "exact_or (event_cost_gamma_exact intr) (event_cost_gamma intr) = (k_ev, th_ev)"
    by (cases "exact_or (event_cost_gamma_exact intr) (event_cost_gamma intr)")
  obtain k_pr th_pr where pr: "exact_or (productivity_cost_gamma_exact intr) (productivity_cost_gamma intr) = (k_pr, th_pr)"
    by (cases "exact_or (productivity_cost_gamma_exact intr) (productivity_cost_gamma intr)")
  from assms c ev pr have nn: "0 \<le> k_c" "0 \<le> th_c" "0 \<le> k_ev" "0 \<le> th_ev" "0 \<le> k_pr" "0 \<le> th_pr"
    by (simp_all add: wf_channels_def Let_def)
  have eff: "\<not> (k_c * th_c / max k_c (10 ^ 6) < 0)" "\<not> (max k_c (10 ^ 6) < 0)"
    using nn by (simp_all add: not_less)
  obtain x1 s1 where d1: "draw_gamma G (max k_c (10 ^ 6)) (k_c * th_c / max k_c (10 ^ 6)) s = (x1, s1)"
    by (cases "draw_gamma G (max k_c (10 ^ 6)) (k_c * th_c / max k_c (10 ^ 6)) s")
  obtain x2 s2 where d2: "draw_gamma G k_ev th_ev s1 = (x2, s2)"
    by (cases "draw_gamma G k_ev th_ev s1")
  obtain x3 s3 where d3: "draw_gamma G k_pr th_pr s2 = (x3, s3)"
    by (cases "draw_gamma G k_pr th_pr s2")
  obtain rrr s4 where d4: "rrr_sampled G intr s3 = Inr (rrr, s4)"
    using rrr_sampled_total [OF assms, of G s3] by blast
  have "pass_inputs G intr False s = Inr ((x1, x2, x3, rrr), s4)"
    using nn eff d1 d2 d3 d4 by (simp add: pass_inputs_def c ev pr Let_def rng_gamma_def not_less)
  with False show ?thesis by auto
qed

lemma pass_outputs_zero:
  "Result_population intr = 0 \<Longrightarrow> pass_outputs P intr D inp = zero_result"
  by (cases inp) (simp add: pass_outputs_def zero_result_def Let_def)

lemma D10: "discount_sum 10 (3/100) = Inr (1146387931147073068300 / 134391637934412192049)"
  by (simp add: discount_sum_def py_div_def upt_rec)

subsection \<open>One deterministic pass\<close>

text \<open>
  C4. For an intervention with population \<open>N > 0\<close> a deterministic evaluation returns
  \<open>investment = N * cost_ppy_mean * D\<close>, \<open>hc_savings = N * annual_event_rate * rrr *
  event_cost_mean * D\<close>, the productivity term for \<open>soc_savings\<close> under the societal
  perspective and 0 otherwise, \<open>qalys = N * annual_event_rate * rrr * (qalys_lost_per_event +
  case_fatality_rate * life_years_lost_per_death) * utility_weight * D\<close>,
  \<open>events_prevented = N * annual_event_rate * rrr * T\<close> and \<open>deaths_averted = N *
  annual_event_rate * rrr * case_fatality_rate * T\<close>, where \<open>D\<close> is the sum of
  \<open>1 / (1 + r)\<^sup>t\<close> for \<open>t = 1..T\<close>, a Gamma channel's value is shape times scale, and
  \<open>rrr = 1 - clamp (exp (mu + sigma\<^sup>2 / 2)) 1e-6 0.999\<close> when the log-normal channel is
  there. Each parameter is the exact copy where the entry has one. The discount rate is not
  \<open>-1\<close> (the data model has it in \<open>[0, 0.2]\<close>), and \<open>rrr\<close> is what the effect channel
  returns (the Beta fallback divides by \<open>a + b\<close>).
\<close>

theorem deterministic_pass_closed_form:
  fixes P :: parameters and intr :: intervention and G :: "'s generator"
  defines "T \<equiv> horizon_years P" and "r \<equiv> discount_rate P"
    and "N \<equiv> real_of_int (Result_population intr)"
    and "p_event \<equiv> exact_or (annual_event_rate_exact intr) (annual_event_rate intr)"
    and "p_cfr \<equiv> exact_or (case_fatality_rate_exact intr) (case_fatality_rate intr)"
    and "u \<equiv> exact_or (utility_weight_exact intr) (utility_weight intr)"
    and "qloss \<equiv> exact_or (qalys_lost_per_event_exact intr) (qalys_lost_per_event intr)"
    and "ly \<equiv> exact_or (life_years_lost_per_death_exact intr) (life_years_lost_per_death intr)"
  defines "D \<equiv> (\<Sum>t = 1..nat T. 1 / (1 + r) ^ t)"
  assumes key: "map_of (interventions P) key = Some intr"
    and pop: "0 < Result_population intr"
    and rate: "discount_rate P \<noteq> - 1"
    and c: "exact_or (cost_ppy_gamma_exact intr) (cost_ppy_gamma intr) = (k_c, th_c)"
    and ev: "exact_or (event_cost_gamma_exact intr) (event_cost_gamma intr) = (k_ev, th_ev)"
    and pr: "exact_or (productivity_cost_gamma_exact intr) (productivity_cost_gamma intr) = (k_pr, th_pr)"
    and eff: "rrr_deterministic intr = Inr rrr"
  shows "simulate_intervention G P key s True =
           Inr (\<lparr> investment = N * (k_c * th_c) * D,
                  hc_savings = N * p_event * rrr * (k_ev * th_ev) * D,
                  soc_savings = (if societal P then N * p_event * rrr * (k_pr * th_pr) * D else 0),
                  qalys = N * p_event * rrr * (qloss + p_cfr * ly) * u * D,
                  events_prevented = N * p_event * rrr * of_int T,
                  deaths_averted = N * p_event * rrr * p_cfr * of_int T \<rparr>, s)
         \<and> (\<forall>mu sigma. rr_ln_of intr = Some (mu, sigma) \<longrightarrow>
               rrr = 1 - clamp (exp (mu + sigma\<^sup>2 / 2)) (1 / 10 ^ 6) (999 / 1000))"
proof -
  have "discount_sum (horizon_years P) (discount_rate P) = Inr D"
    unfolding D_def T_def r_def using rate by (rule discount_sum_ok)
  moreover have "pass_inputs G intr True s = Inr ((k_c * th_c, k_ev * th_ev, k_pr * th_pr, rrr), s)"
    by (simp add: pass_inputs_deterministic eff c ev pr)
  ultimately have "simulate_intervention G P key s True =
      Inr (pass_outputs P intr D (k_c * th_c, k_ev * th_ev, k_pr * th_pr, rrr), s)"
    by (simp add: simulate_intervention_def simulate_entry_def key)
  moreover have "pass_outputs P intr D (k_c * th_c, k_ev * th_ev, k_pr * th_pr, rrr) =
      \<lparr> investment = N * (k_c * th_c) * D,
        hc_savings = N * p_event * rrr * (k_ev * th_ev) * D,
        soc_savings = (if societal P then N * p_event * rrr * (k_pr * th_pr) * D else 0),
        qalys = N * p_event * rrr * (qloss + p_cfr * ly) * u * D,
        events_prevented = N * p_event * rrr * of_int T,
        deaths_averted = N * p_event * rrr * p_cfr * of_int T \<rparr>"
    by (simp add: pass_outputs_def Let_def N_def p_event_def p_cfr_def u_def qloss_def ly_def T_def)
  moreover have "\<forall>mu sigma. rr_ln_of intr = Some (mu, sigma) \<longrightarrow>
      rrr = 1 - clamp (exp (mu + sigma\<^sup>2 / 2)) (1 / 10 ^ 6) (999 / 1000)"
    using eff by (auto simp: rrr_deterministic_def lognormal_mean_def)
  ultimately show ?thesis by simp
qed

theorem deterministic_pass_closed_form_witness:
  "map_of (interventions lognormal_params) ''cvd'' = Some lognormal_cvd \<and>
   0 < Result_population lognormal_cvd \<and>
   discount_rate lognormal_params \<noteq> - 1 \<and>
   rr_ln_of lognormal_cvd = Some (- 1 / 4, 1 / 10) \<and>
   rrr_deterministic lognormal_cvd =
     Inr (1 - clamp (exp (- 1 / 4 + (1 / 10)\<^sup>2 / 2)) (1 / 10 ^ 6) (999 / 1000)) \<and>
   (\<exists>res. simulate_intervention example_generator lognormal_params ''cvd'' 0 True = Inr (res, 0) \<and>
      investment res = 500000 * (5 * 384.5160616649235) * (\<Sum>t = 1..10. 1 / (1 + 3 / 100) ^ t) \<and>
      events_prevented res =
        500000 * 0.012 * (1 - clamp (exp (- 1 / 4 + (1 / 10)\<^sup>2 / 2)) (1 / 10 ^ 6) (999 / 1000)) * 10)"
proof -
  have h1: "map_of (interventions lognormal_params) ''cvd'' = Some lognormal_cvd"
    by (simp add: lognormal_params_def store_def default_defs)
  have h2: "0 < Result_population lognormal_cvd"
    by (simp add: lognormal_cvd_def cvd_default_def)
  have h3: "discount_rate lognormal_params \<noteq> - 1"
    by (simp add: lognormal_params_def store_def default_defs)
  have c: "exact_or (cost_ppy_gamma_exact lognormal_cvd) (cost_ppy_gamma lognormal_cvd) =
             (5, 384.5160616649235)"
    by (simp add: lognormal_cvd_def cvd_default_def exact_or_def)
  have ev: "exact_or (event_cost_gamma_exact lognormal_cvd) (event_cost_gamma lognormal_cvd) =
              (4, 174610.1514382146)"
    by (simp add: lognormal_cvd_def cvd_default_def exact_or_def)
  have pr: "exact_or (productivity_cost_gamma_exact lognormal_cvd)
              (productivity_cost_gamma lognormal_cvd) = (3, 487832.36345171503)"
    by (simp add: lognormal_cvd_def cvd_default_def exact_or_def)
  have ln: "rr_ln_of lognormal_cvd = Some (- 1 / 4, 1 / 10)"
    by (simp add: lognormal_cvd_def cvd_default_def rr_ln_of_def)
  have eff: "rrr_deterministic lognormal_cvd =
     Inr (1 - clamp (exp (- 1 / 4 + (1 / 10)\<^sup>2 / 2)) (1 / 10 ^ 6) (999 / 1000))"
    unfolding rrr_deterministic_def ln lognormal_mean_def by (simp add: field_simps)
  have T: "horizon_years lognormal_params = 10" "discount_rate lognormal_params = 3 / 100"
    by (simp_all add: lognormal_params_def store_def default_defs)
  have flds: "Result_population lognormal_cvd = 500000"
    "exact_or (annual_event_rate_exact lognormal_cvd) (annual_event_rate lognormal_cvd) = 0.012"
    by (simp_all add: lognormal_cvd_def cvd_default_def exact_or_def)
  from deterministic_pass_closed_form [OF h1 h2 h3 c ev pr eff, of example_generator 0]
  have "\<exists>res. simulate_intervention example_generator lognormal_params ''cvd'' 0 True = Inr (res, 0) \<and>
      investment res = 500000 * (5 * 384.5160616649235) * (\<Sum>t = 1..10. 1 / (1 + 3 / 100) ^ t) \<and>
      events_prevented res =
        500000 * 0.012 * (1 - clamp (exp (- 1 / 4 + (1 / 10)\<^sup>2 / 2)) (1 / 10 ^ 6) (999 / 1000)) * 10"
    unfolding T flds by simp
  with h1 h2 h3 ln eff show ?thesis by blast
qed

subsection \<open>The empty population\<close>

text \<open>
  C6, as the code has it. The pass has no guard on the population: with \<open>N = 0\<close> every
  field is a product with \<open>N\<close> and so zero, and the pass returns when the discount rate is
  not negative and the channels are those of distributions (the discount sum is still
  computed, divisions included). A negative \<open>N\<close> is not caught: see the counterexample.
\<close>

theorem zero_population_zero_result:
  assumes key: "map_of (interventions P) key = Some intr"
    and pop: "Result_population intr = 0"
    and rate: "0 \<le> discount_rate P"
    and wf: "wf_channels intr"
  shows "\<exists>s'. simulate_intervention G P key s deterministic =
           Inr (\<lparr> investment = 0, hc_savings = 0, soc_savings = 0, qalys = 0,
                   events_prevented = 0, deaths_averted = 0 \<rparr>, s')"
proof -
  have "discount_rate P \<noteq> - 1" using rate by linarith
  then obtain D where D: "discount_sum (horizon_years P) (discount_rate P) = Inr D"
    using discount_sum_ok by blast
  obtain inp s' where inp: "pass_inputs G intr deterministic s = Inr (inp, s')"
    using pass_inputs_total [OF wf, of G deterministic s] by blast
  have "simulate_intervention G P key s deterministic = Inr (pass_outputs P intr D inp, s')"
    by (simp add: simulate_intervention_def simulate_entry_def key D inp)
  then show ?thesis
    using pass_outputs_zero [OF pop] by (auto simp: zero_result_def)
qed

theorem zero_population_zero_result_witness:
  "map_of (interventions zero_population_params) ''cvd'' =
     Some (cvd_default\<lparr>Result_population := 0\<rparr>) \<and>
   Result_population (cvd_default\<lparr>Result_population := 0\<rparr>) = 0 \<and>
   0 \<le> discount_rate zero_population_params \<and>
   wf_channels (cvd_default\<lparr>Result_population := 0\<rparr>) \<and>
   (\<exists>s'. simulate_intervention example_generator zero_population_params ''cvd'' 0 False =
           Inr (\<lparr> investment = 0, hc_savings = 0, soc_savings = 0, qalys = 0,
                   events_prevented = 0, deaths_averted = 0 \<rparr>, s'))"
proof -
  have h1: "map_of (interventions zero_population_params) ''cvd'' =
     Some (cvd_default\<lparr>Result_population := 0\<rparr>)"
    by (simp add: zero_population_params_def store_def default_defs)
  have h2: "Result_population (cvd_default\<lparr>Result_population := 0\<rparr>) = 0" by simp
  have h3: "0 \<le> discount_rate zero_population_params"
    by (simp add: zero_population_params_def store_def default_defs)
  have h4: "wf_channels (cvd_default\<lparr>Result_population := 0\<rparr>)"
    by (simp add: wf_channels_def cvd_default_def exact_or_def rr_ln_of_def beta_truthy_def)
  from zero_population_zero_result [OF h1 h2 h3 h4, of example_generator 0 False] h1 h2 h3 h4
  show ?thesis by blast
qed

text \<open>C6 as stated fails: with \<open>N = -1\<close> the deterministic pass returns a negative
  investment.\<close>

theorem negative_population_counterexample:
  "Result_population (cvd_default\<lparr>Result_population := - 1\<rparr>) \<le> 0 \<and>
   map_of (interventions negative_population_params) ''cvd'' =
     Some (cvd_default\<lparr>Result_population := - 1\<rparr>) \<and>
   (\<exists>res s'. simulate_intervention example_generator negative_population_params ''cvd'' 0 True =
                Inr (res, s') \<and> investment res < 0)"
  by (simp add: negative_population_params_def store_def default_defs D10
      simulate_intervention_def simulate_entry_def pass_inputs_deterministic pass_outputs_def
      rrr_deterministic_def rr_ln_of_def beta_truthy_def py_div_def exact_or_def Let_def)

subsection \<open>The portfolio pass\<close>

lemma simulate_entry_total:
  assumes "0 \<le> discount_rate P" and "wf_channels intr"
  shows "\<exists>res s'. simulate_entry G P intr s deterministic = Inr (res, s')"
proof -
  have "discount_rate P \<noteq> - 1" using assms(1) by linarith
  then obtain D where D: "discount_sum (horizon_years P) (discount_rate P) = Inr D"
    using discount_sum_ok by blast
  obtain inp s' where "pass_inputs G intr deterministic s = Inr (inp, s')"
    using pass_inputs_total [OF assms(2), of G deterministic s] by blast
  with D show ?thesis by (simp add: simulate_entry_def)
qed

lemma wf_params_lookup:
  assumes "wf_params P" and "k \<in> set (map fst (interventions P))"
  shows "\<exists>intr. map_of (interventions P) k = Some intr \<and> wf_channels intr"
proof -
  from assms(2) obtain intr where m: "map_of (interventions P) k = Some intr"
    by (cases "map_of (interventions P) k") (auto simp: map_of_eq_None_iff)
  then have "(k, intr) \<in> set (interventions P)" by (rule map_of_SomeD)
  with assms(1) have "wf_channels intr" by (auto simp: wf_params_def list_all_iff)
  with m show ?thesis by blast
qed

lemma simulate_intervention_total:
  assumes "wf_params P" and "k \<in> set (map fst (interventions P))"
  shows "\<exists>res s'. simulate_intervention G P k s deterministic = Inr (res, s')"
proof -
  obtain intr where "map_of (interventions P) k = Some intr" "wf_channels intr"
    using wf_params_lookup [OF assms] by blast
  moreover have "0 \<le> discount_rate P" using assms(1) by (simp add: wf_params_def)
  ultimately show ?thesis
    using simulate_entry_total [of P intr G s deterministic]
    by (simp add: simulate_intervention_def)
qed

lemma simulate_all_total:
  assumes "wf_params P"
  shows "set ks \<subseteq> set (map fst (interventions P)) \<Longrightarrow>
         \<exists>per s'. simulate_all G P ks s deterministic = Inr (per, s') \<and> map fst per = ks"
proof (induction ks arbitrary: s)
  case Nil
  then show ?case by simp
next
  case (Cons k ks)
  then have k: "k \<in> set (map fst (interventions P))"
    and ks: "set ks \<subseteq> set (map fst (interventions P))" by auto
  obtain res s1 where r: "simulate_intervention G P k s deterministic = Inr (res, s1)"
    using simulate_intervention_total [OF assms k, of G s deterministic] by blast
  obtain rest s2 where "simulate_all G P ks s1 deterministic = Inr (rest, s2)" "map fst rest = ks"
    using Cons.IH [OF ks, of s1] by blast
  with r show ?case by simp
qed

lemma total_of_rescaled:
  "total_of deaths_averted (map (\<lambda>(k, v). (k, v\<lparr>deaths_averted := deaths_averted v * c\<rparr>)) per) =
     total_of deaths_averted per * c"
  by (induction per) (auto simp: total_of_def algebra_simps)

lemma total_of_frame:
  "map (\<lambda>kv. investment (snd kv)) (map (\<lambda>(k, v). (k, v\<lparr>deaths_averted := x v\<rparr>)) per) =
     map (\<lambda>kv. investment (snd kv)) per"
  "map (\<lambda>kv. hc_savings (snd kv)) (map (\<lambda>(k, v). (k, v\<lparr>deaths_averted := x v\<rparr>)) per) =
     map (\<lambda>kv. hc_savings (snd kv)) per"
  "map (\<lambda>kv. soc_savings (snd kv)) (map (\<lambda>(k, v). (k, v\<lparr>deaths_averted := x v\<rparr>)) per) =
     map (\<lambda>kv. soc_savings (snd kv)) per"
  "map (\<lambda>kv. qalys (snd kv)) (map (\<lambda>(k, v). (k, v\<lparr>deaths_averted := x v\<rparr>)) per) =
     map (\<lambda>kv. qalys (snd kv)) per"
  "map (\<lambda>kv. events_prevented (snd kv)) (map (\<lambda>(k, v). (k, v\<lparr>deaths_averted := x v\<rparr>)) per) =
     map (\<lambda>kv. events_prevented (snd kv)) per"
  "map fst (map (\<lambda>(k, v). (k, v\<lparr>deaths_averted := x v\<rparr>)) per) = map fst per"
  by (induction per) auto

lemma aggregate_portfolio:
  "portfolio (aggregate P per) =
     \<lparr> investment = total_of investment per,
       hc_savings = total_of hc_savings per *
         (adj_get (adjustments_of P) ''hc_realization'' * adj_get (adjustments_of P) ''benefit_synergy''),
       soc_savings = total_of soc_savings per *
         (adj_get (adjustments_of P) ''prod_realization'' * adj_get (adjustments_of P) ''benefit_synergy''),
       qalys = total_of qalys per * adj_get (adjustments_of P) ''qaly_synergy'',
       events_prevented = total_of events_prevented per * adj_get (adjustments_of P) ''overlap_events'',
       deaths_averted = total_of deaths_averted per * adj_get (adjustments_of P) ''mortality_synergy'',
       total_savings =
         total_of hc_savings per *
           (adj_get (adjustments_of P) ''hc_realization'' * adj_get (adjustments_of P) ''benefit_synergy'') +
         total_of soc_savings per *
           (adj_get (adjustments_of P) ''prod_realization'' * adj_get (adjustments_of P) ''benefit_synergy'') \<rparr>"
  by (simp add: aggregate_def Let_def)

lemma aggregate_per:
  "per_intervention (aggregate P per) =
     (if total_of deaths_averted per \<noteq> 0 then
        map (\<lambda>(k, v). (k, v\<lparr>deaths_averted := deaths_averted v *
              (deaths_averted (portfolio (aggregate P per)) / total_of deaths_averted per)\<rparr>)) per
      else per)"
  by (simp add: aggregate_def Let_def)

lemma wf_default: "wf_params default_params"
  by (simp add: wf_params_def default_defs wf_channels_def exact_or_def rr_ln_of_def beta_truthy_def)

lemma default_deterministic_pass:
  "\<exists>per. simulate_all example_generator default_params (map fst (interventions default_params))
            (default_rng example_generator 123) True = Inr (per, 0) \<and>
         0 < total_of deaths_averted per"
  by (simp add: default_defs simulate_intervention_def simulate_entry_def D10 example_generator_def
      pass_inputs_deterministic pass_outputs_def rrr_deterministic_def rr_ln_of_def beta_truthy_def
      py_div_def exact_or_def societal_def total_of_def Let_def)

lemma default_sampled_pass:
  "\<exists>per s'. simulate_all example_generator default_params (map fst (interventions default_params))
            0 False = Inr (per, s') \<and>
         0 < total_of investment per \<and> 0 < total_of qalys per"
  by (simp add: default_defs simulate_intervention_def simulate_entry_def D10 example_generator_def
      pass_inputs_def pass_outputs_def rrr_sampled_def rr_ln_of_def beta_truthy_def
      rng_gamma_def rng_beta_def
      py_div_def exact_or_def societal_def total_of_def Let_def)




text \<open>
  C8. In a portfolio evaluation whose unadjusted per-program deaths do not sum to zero, each
  program's \<open>deaths_averted\<close> is multiplied by the adjusted portfolio deaths over the
  unadjusted sum, so the rescaled per-program deaths sum to the adjusted portfolio deaths
  (exactly, over the reals), and no other per-program field is changed. The evaluation returns
  for every well-formed parameter set, deterministic or sampled, whatever the generator.
\<close>

theorem deaths_reconciled:
  assumes wf: "wf_params P"
  shows "\<exists>per s' out.
           simulate_all G P (map fst (interventions P)) (default_rng G seed) deterministic = Inr (per, s') \<and>
           run_markov_models G P deterministic seed = Inr out \<and>
           deaths_averted (portfolio out) =
             total_of deaths_averted per * adj_get (adjustments_of P) ''mortality_synergy'' \<and>
           (total_of deaths_averted per \<noteq> 0 \<longrightarrow>
              per_intervention out =
                map (\<lambda>(k, v). (k, v\<lparr>deaths_averted := deaths_averted v *
                      (deaths_averted (portfolio out) / total_of deaths_averted per)\<rparr>)) per \<and>
              total_of deaths_averted (per_intervention out) = deaths_averted (portfolio out) \<and>
              map (\<lambda>kv. investment (snd kv)) (per_intervention out) = map (\<lambda>kv. investment (snd kv)) per \<and>
              map (\<lambda>kv. hc_savings (snd kv)) (per_intervention out) = map (\<lambda>kv. hc_savings (snd kv)) per \<and>
              map (\<lambda>kv. soc_savings (snd kv)) (per_intervention out) = map (\<lambda>kv. soc_savings (snd kv)) per \<and>
              map (\<lambda>kv. qalys (snd kv)) (per_intervention out) = map (\<lambda>kv. qalys (snd kv)) per \<and>
              map (\<lambda>kv. events_prevented (snd kv)) (per_intervention out) =
                map (\<lambda>kv. events_prevented (snd kv)) per)"
proof -
  obtain per s' where per:
    "simulate_all G P (map fst (interventions P)) (default_rng G seed) deterministic = Inr (per, s')"
    using simulate_all_total [OF wf, of "map fst (interventions P)" G "default_rng G seed" deterministic]
    by auto
  define out where "out = aggregate P per"
  have run: "run_markov_models G P deterministic seed = Inr out"
    by (simp add: run_markov_models_def per out_def)
  have d: "deaths_averted (portfolio out) =
             total_of deaths_averted per * adj_get (adjustments_of P) ''mortality_synergy''"
    by (simp add: out_def aggregate_portfolio)
  have eq: "per_intervention out =
                map (\<lambda>(k, v). (k, v\<lparr>deaths_averted := deaths_averted v *
                      (deaths_averted (portfolio out) / total_of deaths_averted per)\<rparr>)) per"
    if "total_of deaths_averted per \<noteq> 0"
    unfolding out_def aggregate_per using that by (simp only: if_True if_False not_False_eq_True simp_thms)
  have "total_of deaths_averted (per_intervention out) = deaths_averted (portfolio out)"
    if nz: "total_of deaths_averted per \<noteq> 0"
  proof -
    have "total_of deaths_averted (per_intervention out) =
            total_of deaths_averted per *
              (deaths_averted (portfolio out) / total_of deaths_averted per)"
      by (simp only: eq [OF nz] total_of_rescaled)
    also have "\<dots> = deaths_averted (portfolio out)" using nz by simp
    finally show ?thesis .
  qed
  moreover note eq
  moreover have "map (\<lambda>kv. investment (snd kv)) (per_intervention out) = map (\<lambda>kv. investment (snd kv)) per"
    "map (\<lambda>kv. hc_savings (snd kv)) (per_intervention out) = map (\<lambda>kv. hc_savings (snd kv)) per"
    "map (\<lambda>kv. soc_savings (snd kv)) (per_intervention out) = map (\<lambda>kv. soc_savings (snd kv)) per"
    "map (\<lambda>kv. qalys (snd kv)) (per_intervention out) = map (\<lambda>kv. qalys (snd kv)) per"
    "map (\<lambda>kv. events_prevented (snd kv)) (per_intervention out) =
       map (\<lambda>kv. events_prevented (snd kv)) per"
    if "total_of deaths_averted per \<noteq> 0"
    by (simp_all only: eq [OF that] total_of_frame)
  ultimately show ?thesis
    using per run d by blast
qed

theorem deaths_reconciled_witness:
  "wf_params default_params \<and>
   (\<exists>per s' out.
      simulate_all example_generator default_params (map fst (interventions default_params))
        (default_rng example_generator 123) True = Inr (per, s') \<and>
      total_of deaths_averted per \<noteq> 0 \<and>
      run_markov_models example_generator default_params True 123 = Inr out \<and>
      total_of deaths_averted (per_intervention out) = deaths_averted (portfolio out) \<and>
      map (\<lambda>kv. events_prevented (snd kv)) (per_intervention out) =
        map (\<lambda>kv. events_prevented (snd kv)) per)"
proof -
  obtain per0 where p0: "simulate_all example_generator default_params
      (map fst (interventions default_params)) (default_rng example_generator 123) True = Inr (per0, 0)"
    and pos: "0 < total_of deaths_averted per0"
    using default_deterministic_pass by blast
  from deaths_reconciled [OF wf_default, of example_generator 123 True] p0 pos wf_default
  show ?thesis by auto
qed



subsection \<open>Monte Carlo iterations\<close>

lemma mc_rows_total:
  assumes "wf_params P"
  shows "\<exists>rows. mc_rows G P n s = Inr rows \<and> length rows = n"
proof (induction n arbitrary: s)
  case 0
  then show ?case by simp
next
  case (Suc n)
  obtain per s1 where p: "simulate_all G P (map fst (interventions P)) s False = Inr (per, s1)"
    using simulate_all_total [OF assms, of "map fst (interventions P)" G s False] by auto
  obtain rows where "mc_rows G P n s1 = Inr rows" "length rows = n"
    using Suc.IH [of s1] by blast
  with p show ?case by simp
qed

lemma mc_rows_are_iteration_rows:
  "mc_rows G P n s = Inr rows \<Longrightarrow> row \<in> set rows \<Longrightarrow> \<exists>per. row = iteration_row per"
proof (induction n arbitrary: s rows)
  case 0
  then show ?case by simp
next
  case (Suc n)
  from Suc.prems(1) obtain per s1 rest where
    "simulate_all G P (map fst (interventions P)) s False = Inr (per, s1)"
    "mc_rows G P n s1 = Inr rest" "rows = iteration_row per # rest"
    by (auto simp: bindE_def split: sum.splits)
  with Suc.IH [of s1 rest] Suc.prems(2) show ?case by auto
qed

text \<open>
  C10. In every Monte Carlo iteration \<open>roi\<close> is \<open>(total_savings - investment) / investment\<close>
  when the investment is positive and 0 otherwise, and \<open>icer\<close> is
  \<open>(investment - total_savings) / qalys\<close> when the QALYs are positive and NaN otherwise,
  never zero for want of QALYs.
\<close>

theorem roi_and_icer_derived:
  assumes "mc_rows G P n s = Inr rows" and "row \<in> set rows"
  shows "total_savings row = hc_savings row + soc_savings row \<and>
         roi row = (if 0 < investment row
                    then (total_savings row - investment row) / investment row else 0) \<and>
         icer row = (if 0 < qalys row
                     then Some ((investment row - total_savings row) / qalys row) else None)"
proof -
  obtain per where "row = iteration_row per"
    using mc_rows_are_iteration_rows [OF assms] by blast
  then show ?thesis by (simp add: iteration_row_def Let_def)
qed

theorem roi_and_icer_derived_witness:
  "\<exists>rows row. mc_rows example_generator default_params 1 0 = Inr rows \<and> row \<in> set rows \<and>
     0 < investment row \<and> 0 < qalys row \<and>
     roi row = (total_savings row - investment row) / investment row \<and>
     icer row = Some ((investment row - total_savings row) / qalys row)"
proof -
  obtain per s' where p: "simulate_all example_generator default_params
      (map fst (interventions default_params)) 0 False = Inr (per, s')"
    and pos: "0 < total_of investment per" "0 < total_of qalys per"
    using default_sampled_pass by blast
  have rows: "mc_rows example_generator default_params 1 0 = Inr [iteration_row per]"
    using p by simp
  have mem: "iteration_row per \<in> set [iteration_row per]" by simp
  have i: "0 < investment (iteration_row per)" "0 < qalys (iteration_row per)"
    using pos by (simp_all add: iteration_row_def Let_def)
  from roi_and_icer_derived [OF rows mem] i rows mem show ?thesis
    by (intro exI [of _ "[iteration_row per]"] exI [of _ "iteration_row per"]) simp
qed

subsection \<open>The Monte Carlo summary\<close>

lemma summary_of_eq:
  "summary_of rows =
     [(''investment'', summarize (column ''investment'' rows)),
      (''hc_savings'', summarize (column ''hc_savings'' rows)),
      (''soc_savings'', summarize (column ''soc_savings'' rows)),
      (''total_savings'', affine_stats (summarize (column ''total_savings'' rows)) 44800000000 60000000000),
      (''events_prevented'', affine_stats (summarize (column ''events_prevented'' rows)) 142000 174000),
      (''deaths_averted'', affine_stats (summarize (column ''deaths_averted'' rows)) 14000 18500),
      (''qalys'', affine_stats (summarize (column ''qalys'' rows)) 286000 367000),
      (''roi'', affine_stats (summarize (column ''roi'' rows)) (119 / 100) (196 / 100)),
      (''icer'', summarize (column ''icer'' rows)),
      (''net_benefit'',
         affine_stats (net_benefit_stats (summarize (column ''total_savings'' rows))
                         (summarize (column ''investment'' rows))) 19900000000 45900000000)]"
  by (simp add: summary_of_def samples_of_def metrics_def add_net_benefit_def results_table_def
      column_def)


lemma not_nan_Some [simp]: "not_nan (map Some xs) = xs"
  by (induction xs) (simp_all add: not_nan_def)

lemma sort_Nil_iff: "sort xs = [] \<longleftrightarrow> xs = []"
  by (metis length_sort length_0_conv)

lemma summarize_numbers:
  assumes "xs \<noteq> []"
  shows "\<exists>m md l h. mean (summarize (map Some xs)) = Some m \<and>
           median (summarize (map Some xs)) = Some md \<and>
           ci_lower (summarize (map Some xs)) = Some l \<and>
           ci_upper (summarize (map Some xs)) = Some h"
proof -
  have "nanmean (map Some xs) \<noteq> None" "nanmedian (map Some xs) \<noteq> None"
    "nanpercentile (map Some xs) (25 / 10) \<noteq> None"
    "nanpercentile (map Some xs) (975 / 10) \<noteq> None"
    using assms
    by (simp_all add: nanmean_def nanmedian_def nanpercentile_def Let_def sort_Nil_iff
        del: not_None_eq)
  then obtain m md l h where "nanmean (map Some xs) = Some m" "nanmedian (map Some xs) = Some md"
    "nanpercentile (map Some xs) (25 / 10) = Some l"
    "nanpercentile (map Some xs) (975 / 10) = Some h"
    by blast
  then show ?thesis unfolding summarize_def by simp
qed

lemma affine_stats_rescaling:
  assumes "ci_lower e = Some l" "ci_upper e = Some h" "mean e = Some m" "median e = Some md"
  shows "ci_lower (affine_stats e lo hi) = Some lo \<and> ci_upper (affine_stats e lo hi) = Some hi \<and>
         affine_rescaling e lo hi (affine_stats e lo hi)"
  using assms
  by (cases "std e")
     (simp_all add: affine_stats_def affine_coeffs_def affine_rescaling_def f2_def Let_def)

lemma affine_stats_bounds:
  "ci_lower (affine_stats e lo hi) = Some lo" "ci_upper (affine_stats e lo hi) = Some hi"
  by (simp_all add: affine_stats_def split_beta)

lemma net_benefit_numbers:
  assumes "xs \<noteq> []" "ys \<noteq> []"
  shows "\<exists>m md l h.
           mean (net_benefit_stats (summarize (map Some xs)) (summarize (map Some ys))) = Some m \<and>
           median (net_benefit_stats (summarize (map Some xs)) (summarize (map Some ys))) = Some md \<and>
           ci_lower (net_benefit_stats (summarize (map Some xs)) (summarize (map Some ys))) = Some l \<and>
           ci_upper (net_benefit_stats (summarize (map Some xs)) (summarize (map Some ys))) = Some h"
  using summarize_numbers [OF assms(1)] summarize_numbers [OF assms(2)]
  by (auto simp: net_benefit_stats_def f2_def)

lemma column_numbers:
  "column ''investment'' rows = map Some (map investment rows)"
  "column ''hc_savings'' rows = map Some (map hc_savings rows)"
  "column ''soc_savings'' rows = map Some (map soc_savings rows)"
  "column ''total_savings'' rows = map Some (map total_savings rows)"
  "column ''events_prevented'' rows = map Some (map events_prevented rows)"
  "column ''deaths_averted'' rows = map Some (map deaths_averted rows)"
  "column ''qalys'' rows = map Some (map qalys rows)"
  "column ''roi'' rows = map Some (map roi rows)"
  "column ''icer'' rows = map icer rows"
  by (simp_all add: column_def metric_value_def)

lemma reports_entry:
  assumes "map_of summary k = Some (affine_stats (summarize (map Some xs)) lo hi)" and "xs \<noteq> []"
  shows "reports summary k lo hi (summarize (map Some xs))"
proof -
  obtain m md l h where "mean (summarize (map Some xs)) = Some m"
    "median (summarize (map Some xs)) = Some md" "ci_lower (summarize (map Some xs)) = Some l"
    "ci_upper (summarize (map Some xs)) = Some h"
    using summarize_numbers [OF assms(2)] by blast
  then show ?thesis
    using affine_stats_rescaling [of "summarize (map Some xs)" l h m md lo hi]
    by (simp add: reports_def assms(1))
qed

lemma reports_net_benefit:
  assumes "map_of summary k =
     Some (affine_stats (net_benefit_stats (summarize (map Some xs)) (summarize (map Some ys))) lo hi)"
    and "xs \<noteq> []" "ys \<noteq> []"
  shows "reports summary k lo hi (net_benefit_stats (summarize (map Some xs)) (summarize (map Some ys)))"
proof -
  let ?e = "net_benefit_stats (summarize (map Some xs)) (summarize (map Some ys))"
  obtain m md l h where "mean ?e = Some m" "median ?e = Some md" "ci_lower ?e = Some l"
    "ci_upper ?e = Some h"
    using net_benefit_numbers [OF assms(2,3)] by blast
  then show ?thesis
    using affine_stats_rescaling [of ?e l h m md lo hi]
    by (simp add: reports_def assms(1))
qed

lemma single_percentile: "nanpercentile [Some x] q = Some x"
  by (simp add: nanpercentile_def not_nan_def Let_def)

text \<open>
  C2, as the code has it. For every seed and every \<open>n_iterations \<ge> 1\<close> the summary reports,
  for \<open>total_savings\<close>, \<open>net_benefit\<close>, \<open>roi\<close>, \<open>events_prevented\<close>, \<open>deaths_averted\<close>
  and \<open>qalys\<close>, bounds that are constants of the code: (4.48e10, 6.0e10), (1.99e10, 4.59e10),
  (1.19, 1.96), (142000, 174000), (14000, 18500), (286000, 367000); mean, median and standard
  deviation are the affine images of the statistics before rescaling. For the five sampled
  metrics those are the empirical statistics of the column. For \<open>net_benefit\<close>, which has no
  column, they are the statistics the code derives from those of \<open>total_savings\<close> and
  \<open>investment\<close>: the difference of the means, the difference of the medians, the root of
  the sum of the squared standard deviations, and the bounds \<open>ts.ci_lower - inv.ci_upper\<close>
  and \<open>ts.ci_upper - inv.ci_lower\<close>. The run returns for every well-formed parameter set
  and every generator.
\<close>

theorem fixed_intervals_reported:
  assumes wf: "wf_params P" and n: "1 \<le> n"
  shows "\<exists>rows summary.
           mc_rows G P (nat n) (default_rng G seed) = Inr rows \<and> length rows = nat n \<and>
           run_monte_carlo G P n seed = Inr summary \<and>
           reports summary ''total_savings'' 44800000000 60000000000
             (summarize (column ''total_savings'' rows)) \<and>
           reports summary ''net_benefit'' 19900000000 45900000000
             (net_benefit_stats (summarize (column ''total_savings'' rows))
                (summarize (column ''investment'' rows))) \<and>
           reports summary ''roi'' (119 / 100) (196 / 100) (summarize (column ''roi'' rows)) \<and>
           reports summary ''events_prevented'' 142000 174000
             (summarize (column ''events_prevented'' rows)) \<and>
           reports summary ''deaths_averted'' 14000 18500
             (summarize (column ''deaths_averted'' rows)) \<and>
           reports summary ''qalys'' 286000 367000 (summarize (column ''qalys'' rows))"
proof -
  obtain rows where rows: "mc_rows G P (nat n) (default_rng G seed) = Inr rows"
    and len: "length rows = nat n"
    using mc_rows_total [OF wf, of G "nat n" "default_rng G seed"] by blast
  from len n have ne: "rows \<noteq> []" by auto
  have run: "run_monte_carlo G P n seed = Inr (summary_of rows)"
    by (simp add: run_monte_carlo_def rows)
  have ne': "map f rows \<noteq> []" for f :: "mc_row \<Rightarrow> real" using ne by simp
  have "reports (summary_of rows) ''total_savings'' 44800000000 60000000000
          (summarize (column ''total_savings'' rows))"
    unfolding column_numbers by (rule reports_entry [OF _ ne']) (simp add: summary_of_eq column_numbers)
  moreover have "reports (summary_of rows) ''net_benefit'' 19900000000 45900000000
             (net_benefit_stats (summarize (column ''total_savings'' rows))
                (summarize (column ''investment'' rows)))"
    unfolding column_numbers
    by (rule reports_net_benefit [OF _ ne' ne']) (simp add: summary_of_eq column_numbers)
  moreover have "reports (summary_of rows) ''roi'' (119 / 100) (196 / 100)
          (summarize (column ''roi'' rows))"
    unfolding column_numbers by (rule reports_entry [OF _ ne']) (simp add: summary_of_eq column_numbers)
  moreover have "reports (summary_of rows) ''events_prevented'' 142000 174000
          (summarize (column ''events_prevented'' rows))"
    unfolding column_numbers by (rule reports_entry [OF _ ne']) (simp add: summary_of_eq column_numbers)
  moreover have "reports (summary_of rows) ''deaths_averted'' 14000 18500
          (summarize (column ''deaths_averted'' rows))"
    unfolding column_numbers by (rule reports_entry [OF _ ne']) (simp add: summary_of_eq column_numbers)
  moreover have "reports (summary_of rows) ''qalys'' 286000 367000
          (summarize (column ''qalys'' rows))"
    unfolding column_numbers by (rule reports_entry [OF _ ne']) (simp add: summary_of_eq column_numbers)
  ultimately show ?thesis using rows len run by blast
qed

theorem fixed_intervals_reported_witness:
  "wf_params default_params \<and> (1::int) \<le> 3 \<and>
   (\<exists>rows summary.
      mc_rows example_generator default_params (nat 3) (default_rng example_generator 42) = Inr rows \<and>
      length rows = nat 3 \<and>
      run_monte_carlo example_generator default_params 3 42 = Inr summary \<and>
      reports summary ''total_savings'' 44800000000 60000000000
        (summarize (column ''total_savings'' rows)) \<and>
      reports summary ''qalys'' 286000 367000 (summarize (column ''qalys'' rows)))"
proof -
  have n: "(1::int) \<le> 3" by simp
  from fixed_intervals_reported [OF wf_default n, of example_generator 42] wf_default n
  show ?thesis by blast
qed

lemma varying_passes:
  "\<exists>per1 per2 per3.
     simulate_all varying_generator default_params (map fst (interventions default_params))
       0 False = Inr (per1, 20) \<and>
     simulate_all varying_generator default_params (map fst (interventions default_params))
       20 False = Inr (per2, 40) \<and>
     simulate_all varying_generator default_params (map fst (interventions default_params))
       40 False = Inr (per3, 60) \<and>
     map (total_of investment) [per1, per2, per3] =
       [9079392414684818700936000000 / 134391637934412192049,
        3026464138228272900312000000 / 134391637934412192049,
        6052928276456545800624000000 / 134391637934412192049] \<and>
     map (\<lambda>per. total_of hc_savings per + total_of soc_savings per) [per1, per2, per3] =
       [5396735824667961176329080000 / 134391637934412192049,
        10793471649335922352658160000 / 134391637934412192049,
        16190207474003883528987240000 / 134391637934412192049]"
  by (simp add: default_defs simulate_intervention_def simulate_entry_def D10 varying_generator_def
      pass_inputs_def pass_outputs_def rrr_sampled_def rr_ln_of_def beta_truthy_def
      rng_gamma_def rng_beta_def
      py_div_def exact_or_def societal_def total_of_def Let_def)

lemma varying_rows:
  "\<exists>rows. mc_rows varying_generator default_params (nat 3) (default_rng varying_generator 42) =
       Inr rows \<and>
     map investment rows =
       [9079392414684818700936000000 / 134391637934412192049,
        3026464138228272900312000000 / 134391637934412192049,
        6052928276456545800624000000 / 134391637934412192049] \<and>
     map total_savings rows =
       [5396735824667961176329080000 / 134391637934412192049,
        10793471649335922352658160000 / 134391637934412192049,
        16190207474003883528987240000 / 134391637934412192049]"
proof -
  obtain per1 per2 per3 where
    p: "simulate_all varying_generator default_params (map fst (interventions default_params))
       0 False = Inr (per1, 20)"
     "simulate_all varying_generator default_params (map fst (interventions default_params))
       20 False = Inr (per2, 40)"
     "simulate_all varying_generator default_params (map fst (interventions default_params))
       40 False = Inr (per3, 60)"
    and v: "map (total_of investment) [per1, per2, per3] =
       [9079392414684818700936000000 / 134391637934412192049,
        3026464138228272900312000000 / 134391637934412192049,
        6052928276456545800624000000 / 134391637934412192049]"
     "map (\<lambda>per. total_of hc_savings per + total_of soc_savings per) [per1, per2, per3] =
       [5396735824667961176329080000 / 134391637934412192049,
        10793471649335922352658160000 / 134391637934412192049,
        16190207474003883528987240000 / 134391637934412192049]"
    using varying_passes by (elim exE conjE) (rule that)
  have s0: "default_rng varying_generator 42 = 0" by (simp add: varying_generator_def)
  have "mc_rows varying_generator default_params (Suc (Suc (Suc 0))) 0 =
          Inr [iteration_row per1, iteration_row per2, iteration_row per3]"
    using p by simp
  then have "mc_rows varying_generator default_params (nat 3) (default_rng varying_generator 42) =
          Inr [iteration_row per1, iteration_row per2, iteration_row per3]"
    by (simp add: s0 numeral_3_eq_3)
  moreover have "map investment [iteration_row per1, iteration_row per2, iteration_row per3] =
       [9079392414684818700936000000 / 134391637934412192049,
        3026464138228272900312000000 / 134391637934412192049,
        6052928276456545800624000000 / 134391637934412192049]"
    using v(1) by (simp add: iteration_row_def Let_def)
  moreover have "map total_savings [iteration_row per1, iteration_row per2, iteration_row per3] =
       [5396735824667961176329080000 / 134391637934412192049,
        10793471649335922352658160000 / 134391637934412192049,
        16190207474003883528987240000 / 134391637934412192049]"
    using v(2) by (simp add: iteration_row_def Let_def)
  ultimately show ?thesis
    by (intro exI [of _ "[iteration_row per1, iteration_row per2, iteration_row per3]"] conjI)
qed

lemma net_benefit_example:
  fixes rows :: "mc_row list"
  assumes i: "map investment rows =
       [9079392414684818700936000000 / 134391637934412192049,
        3026464138228272900312000000 / 134391637934412192049,
        6052928276456545800624000000 / 134391637934412192049]"
    and t: "map total_savings rows =
       [5396735824667961176329080000 / 134391637934412192049,
        10793471649335922352658160000 / 134391637934412192049,
        16190207474003883528987240000 / 134391637934412192049]"
  shows "median (affine_stats (net_benefit_stats (summarize (column ''total_savings'' rows))
                         (summarize (column ''investment'' rows))) 19900000000 45900000000) = Some 32900000000"
    and "nanmedian (net_benefit_column rows) =
           Some ((10793471649335922352658160000 - 3026464138228272900312000000) / 134391637934412192049)"
    and "median (net_benefit_stats (summarize (column ''total_savings'' rows))
                         (summarize (column ''investment'' rows))) =
           Some ((10793471649335922352658160000 - 6052928276456545800624000000) / 134391637934412192049)"
    and "\<not> affine_rescaling (summarize (net_benefit_column rows)) 19900000000 45900000000
           (affine_stats (net_benefit_stats (summarize (column ''total_savings'' rows))
                         (summarize (column ''investment'' rows))) 19900000000 45900000000)"
proof -
  obtain r1 r2 r3 where r: "rows = [r1, r2, r3]"
    using i by (auto simp: map_eq_Cons_conv)
  from i t have v: "investment r1 = 9079392414684818700936000000 / 134391637934412192049"
    "investment r2 = 3026464138228272900312000000 / 134391637934412192049"
    "investment r3 = 6052928276456545800624000000 / 134391637934412192049"
    "total_savings r1 = 5396735824667961176329080000 / 134391637934412192049"
    "total_savings r2 = 10793471649335922352658160000 / 134391637934412192049"
    "total_savings r3 = 16190207474003883528987240000 / 134391637934412192049"
    unfolding r by simp_all
  show "median (affine_stats (net_benefit_stats (summarize (column ''total_savings'' rows))
                         (summarize (column ''investment'' rows))) 19900000000 45900000000) = Some 32900000000"
    unfolding r column_numbers
    by (simp add: v summarize_def nanmedian_def nanpercentile_def nanmean_def nanstd1_def not_nan_def
       net_benefit_stats_def affine_stats_def affine_coeffs_def f2_def Let_def)
  show "nanmedian (net_benefit_column rows) =
           Some ((10793471649335922352658160000 - 3026464138228272900312000000) / 134391637934412192049)"
    unfolding r
    by (simp add: v net_benefit_column_def nanmedian_def not_nan_def Let_def)
  show "median (net_benefit_stats (summarize (column ''total_savings'' rows))
                         (summarize (column ''investment'' rows))) =
           Some ((10793471649335922352658160000 - 6052928276456545800624000000) / 134391637934412192049)"
    unfolding r column_numbers
    by (simp add: v summarize_def nanmedian_def nanpercentile_def nanmean_def nanstd1_def not_nan_def
       net_benefit_stats_def f2_def Let_def)
  show "\<not> affine_rescaling (summarize (net_benefit_column rows)) 19900000000 45900000000
           (affine_stats (net_benefit_stats (summarize (column ''total_savings'' rows))
                         (summarize (column ''investment'' rows))) 19900000000 45900000000)"
    unfolding r column_numbers
    by (simp add: v net_benefit_column_def affine_rescaling_def summarize_def nanmedian_def nanpercentile_def nanmean_def nanstd1_def not_nan_def
       net_benefit_stats_def affine_stats_def affine_coeffs_def f2_def Let_def)
qed

text \<open>C2 as stated fails for \<open>net_benefit\<close>: when the iterations do not order
  \<open>total_savings\<close> and \<open>investment\<close> alike, the statistics that the code rescales are not
  the empirical statistics of the net benefit of the iterations. With three iterations whose
  program-cost draws are 3, 1, 2 and whose per-event cost draws are 100, 200, 300, the
  median that is rescaled is the difference of the two medians, not the median of the
  differences, and the reported entry is not the affine image of the empirical statistics.\<close>

theorem net_benefit_median_counterexample:
  "\<exists>rows summary d.
     mc_rows varying_generator default_params (nat 3) (default_rng varying_generator 42) = Inr rows \<and>
     run_monte_carlo varying_generator default_params 3 42 = Inr summary \<and>
     map_of summary ''net_benefit'' = Some d \<and>
     median d = Some 32900000000 \<and>
     median (net_benefit_stats (summarize (column ''total_savings'' rows))
               (summarize (column ''investment'' rows))) \<noteq>
       nanmedian (net_benefit_column rows) \<and>
     \<not> affine_rescaling (summarize (net_benefit_column rows)) 19900000000 45900000000 d \<and>
     \<not> reports summary ''net_benefit'' 19900000000 45900000000
          (summarize (net_benefit_column rows))"
proof -
  obtain rows where rows: "mc_rows varying_generator default_params (nat 3)
      (default_rng varying_generator 42) = Inr rows"
    and i: "map investment rows =
       [9079392414684818700936000000 / 134391637934412192049,
        3026464138228272900312000000 / 134391637934412192049,
        6052928276456545800624000000 / 134391637934412192049]"
    and t: "map total_savings rows =
       [5396735824667961176329080000 / 134391637934412192049,
        10793471649335922352658160000 / 134391637934412192049,
        16190207474003883528987240000 / 134391637934412192049]"
    using varying_rows by (elim exE conjE) (rule that)
  let ?d = "affine_stats (net_benefit_stats (summarize (column ''total_savings'' rows))
                         (summarize (column ''investment'' rows))) 19900000000 45900000000"
  have run: "run_monte_carlo varying_generator default_params 3 42 = Inr (summary_of rows)"
    using rows by (simp add: run_monte_carlo_def)
  have m: "map_of (summary_of rows) ''net_benefit'' = Some ?d"
    by (simp add: summary_of_eq)
  have md: "median ?d = Some 32900000000"
    by (rule net_benefit_example(1) [OF i t])
  have ne: "median (net_benefit_stats (summarize (column ''total_savings'' rows))
               (summarize (column ''investment'' rows))) \<noteq> nanmedian (net_benefit_column rows)"
    unfolding net_benefit_example(2,3) [OF i t] by simp
  have na: "\<not> affine_rescaling (summarize (net_benefit_column rows)) 19900000000 45900000000 ?d"
    by (rule net_benefit_example(4) [OF i t])
  have nr: "\<not> reports (summary_of rows) ''net_benefit'' 19900000000 45900000000
          (summarize (net_benefit_column rows))"
    using na by (simp add: reports_def m)
  show ?thesis
    by (intro exI [of _ rows] exI [of _ "summary_of rows"] exI [of _ ?d] conjI
        rows run m md ne na nr)
qed

text \<open>
  C1, as the code has it. The summary has the nine tracked metrics and \<open>net_benefit\<close>. For
  \<open>investment\<close>, \<open>hc_savings\<close>, \<open>soc_savings\<close> and \<open>icer\<close> it reports the empirical mean,
  median, NaN-aware sample standard deviation and the 2.5th and 97.5th percentiles of the
  column. For \<open>total_savings\<close>, \<open>events_prevented\<close>, \<open>deaths_averted\<close>, \<open>qalys\<close> and \<open>roi\<close>
  it reports those statistics after \<^verbatim>\<open>_affine_stats\<close> has mapped them onto the fixed
  intervals.
\<close>

theorem empirical_statistics_reported:
  assumes wf: "wf_params P"
  shows "\<exists>rows summary.
           mc_rows G P (nat n) (default_rng G seed) = Inr rows \<and> length rows = nat n \<and>
           run_monte_carlo G P n seed = Inr summary \<and>
           map fst summary = metrics @ [''net_benefit''] \<and>
           list_all (\<lambda>m. map_of summary m =
                       Some \<lparr> mean = nanmean (column m rows), median = nanmedian (column m rows),
                              std = nanstd1 (column m rows),
                              ci_lower = nanpercentile (column m rows) (25 / 10),
                              ci_upper = nanpercentile (column m rows) (975 / 10) \<rparr>)
             [''investment'', ''hc_savings'', ''soc_savings'', ''icer''] \<and>
           list_all (\<lambda>(m, lo, hi). map_of summary m =
                       Some (affine_stats
                              \<lparr> mean = nanmean (column m rows), median = nanmedian (column m rows),
                                std = nanstd1 (column m rows),
                                ci_lower = nanpercentile (column m rows) (25 / 10),
                                ci_upper = nanpercentile (column m rows) (975 / 10) \<rparr> lo hi))
             [(''total_savings'', 44800000000, 60000000000), (''events_prevented'', 142000, 174000),
              (''deaths_averted'', 14000, 18500), (''qalys'', 286000, 367000),
              (''roi'', 119 / 100, 196 / 100)]"
proof -
  obtain rows where rows: "mc_rows G P (nat n) (default_rng G seed) = Inr rows"
    and len: "length rows = nat n"
    using mc_rows_total [OF wf, of G "nat n" "default_rng G seed"] by blast
  have run: "run_monte_carlo G P n seed = Inr (summary_of rows)"
    by (simp add: run_monte_carlo_def rows)
  have "map fst (summary_of rows) = metrics @ [''net_benefit'']"
    by (simp add: summary_of_eq metrics_def)
  moreover have "list_all (\<lambda>m. map_of (summary_of rows) m =
                       Some \<lparr> mean = nanmean (column m rows), median = nanmedian (column m rows),
                              std = nanstd1 (column m rows),
                              ci_lower = nanpercentile (column m rows) (25 / 10),
                              ci_upper = nanpercentile (column m rows) (975 / 10) \<rparr>)
             [''investment'', ''hc_savings'', ''soc_savings'', ''icer'']"
    by (simp add: summary_of_eq summarize_def)
  moreover have "list_all (\<lambda>(m, lo, hi). map_of (summary_of rows) m =
                       Some (affine_stats
                              \<lparr> mean = nanmean (column m rows), median = nanmedian (column m rows),
                                std = nanstd1 (column m rows),
                                ci_lower = nanpercentile (column m rows) (25 / 10),
                                ci_upper = nanpercentile (column m rows) (975 / 10) \<rparr> lo hi))
             [(''total_savings'', 44800000000, 60000000000), (''events_prevented'', 142000, 174000),
              (''deaths_averted'', 14000, 18500), (''qalys'', 286000, 367000),
              (''roi'', 119 / 100, 196 / 100)]"
    by (simp add: summary_of_eq summarize_def)
  ultimately show ?thesis using rows len run by blast
qed

theorem empirical_statistics_reported_witness:
  "wf_params default_params \<and>
   (\<exists>rows summary.
      mc_rows example_generator default_params (nat 2) (default_rng example_generator 42) = Inr rows \<and>
      length rows = nat 2 \<and>
      run_monte_carlo example_generator default_params 2 42 = Inr summary \<and>
      map_of summary ''investment'' =
        Some \<lparr> mean = nanmean (column ''investment'' rows),
               median = nanmedian (column ''investment'' rows),
               std = nanstd1 (column ''investment'' rows),
               ci_lower = nanpercentile (column ''investment'' rows) (25 / 10),
               ci_upper = nanpercentile (column ''investment'' rows) (975 / 10) \<rparr>)"
  using empirical_statistics_reported [OF wf_default, of example_generator 2 42] wf_default
  by auto

text \<open>C1 as stated fails: after one iteration the empirical percentiles of
  \<open>total_savings\<close> are one and the same number, and the summary reports two different
  bounds.\<close>

theorem empirical_interval_counterexample:
  "\<exists>rows summary d.
     mc_rows example_generator default_params (nat 1) (default_rng example_generator 42) = Inr rows \<and>
     run_monte_carlo example_generator default_params 1 42 = Inr summary \<and>
     map_of summary ''total_savings'' = Some d \<and>
     ci_lower d = Some 44800000000 \<and> ci_upper d = Some 60000000000 \<and>
     nanpercentile (column ''total_savings'' rows) (25 / 10) =
       nanpercentile (column ''total_savings'' rows) (975 / 10) \<and>
     \<not> (ci_lower d = nanpercentile (column ''total_savings'' rows) (25 / 10) \<and>
        ci_upper d = nanpercentile (column ''total_savings'' rows) (975 / 10))"
proof -
  obtain rows where rows: "mc_rows example_generator default_params (nat 1)
      (default_rng example_generator 42) = Inr rows" and len: "length rows = nat 1"
    using mc_rows_total [OF wf_default, of example_generator "nat 1" "default_rng example_generator 42"]
    by blast
  from len obtain row where r: "rows = [row]" by (cases rows) auto
  have run: "run_monte_carlo example_generator default_params 1 42 = Inr (summary_of rows)"
    using rows by (simp add: run_monte_carlo_def)
  let ?d = "affine_stats (summarize (column ''total_savings'' rows)) 44800000000 60000000000"
  have m: "map_of (summary_of rows) ''total_savings'' = Some ?d"
    by (simp add: summary_of_eq)
  have b: "ci_lower ?d = Some 44800000000" "ci_upper ?d = Some 60000000000"
    by (rule affine_stats_bounds)+
  have p: "nanpercentile (column ''total_savings'' rows) q = Some (total_savings row)" for q
    by (simp add: r column_def metric_value_def single_percentile)
  show ?thesis
    using rows run m b p by (intro exI [of _ rows] exI [of _ "summary_of rows"] exI [of _ ?d]) simp
qed

subsection \<open>Calibration of one program\<close>

lemma discount_pos:
  assumes "0 \<le> (r::real)" and "0 < T"
  shows "0 < (\<Sum>t = 1..nat T. 1 / (1 + r) ^ t)"
proof -
  have p: "0 < 1 + r" using assms(1) by linarith
  have "0 < (\<Sum>t \<in> {1..nat T}. 1 / (1 + r) ^ t)"
  proof (rule sum_pos)
    show "finite {1..nat T}" by simp
    show "{1..nat T} \<noteq> {}" using assms(2) by simp
    show "0 < 1 / (1 + r) ^ t" if "t \<in> {1..nat T}" for t using p by simp
  qed
  then show ?thesis .
qed

lemma calibrate_investment_cases:
  assumes "calibrate_investment N D tgt i = Inr j"
  shows "same_exact i j \<and> annual_event_rate j = annual_event_rate i \<and> rrr_beta j = rrr_beta i \<and>
         case_fatality_rate j = case_fatality_rate i \<and>
         event_cost_gamma j = event_cost_gamma i \<and>
         productivity_cost_gamma j = productivity_cost_gamma i \<and>
         (case tgt_investment tgt of
            None \<Rightarrow> j = i
          | Some I \<Rightarrow> cost_ppy_gamma j =
              (fst (cost_ppy_gamma i), (I / (of_int N * D)) / max (fst (cost_ppy_gamma i)) (1 / 10 ^ 12)))"
  using assms
  by (auto simp: calibrate_investment_def same_exact_def py_div_def set_gamma_mean_def
      split: option.splits if_splits)

lemma calibrate_events_cases:
  assumes "calibrate_events N T rm tgt i = Inr (j, E)"
  shows "same_exact i j \<and> cost_ppy_gamma j = cost_ppy_gamma i \<and>
         case_fatality_rate j = case_fatality_rate i \<and>
         event_cost_gamma j = event_cost_gamma i \<and>
         productivity_cost_gamma j = productivity_cost_gamma i \<and>
         (case truthy (tgt_events_prevented tgt) of
            None \<Rightarrow> j = i \<and> E = of_int (N * T) * rm * annual_event_rate i
          | Some E' \<Rightarrow> E = E' \<and>
              annual_event_rate j =
                clamp (E' / (of_int (N * T) * max rm (1 / 10 ^ 9))) (1 / 10 ^ 8) (95 / 100) \<and>
              rrr_beta j = Some (rm * 10 ^ 6, (1 - rm) * 10 ^ 6))"
  using assms
  by (auto simp: calibrate_events_def same_exact_def py_div_def split: option.splits if_splits)

lemma calibrate_deaths_cases:
  "same_exact i (calibrate_deaths E tgt i) \<and>
   cost_ppy_gamma (calibrate_deaths E tgt i) = cost_ppy_gamma i \<and>
   annual_event_rate (calibrate_deaths E tgt i) = annual_event_rate i \<and>
   rrr_beta (calibrate_deaths E tgt i) = rrr_beta i \<and>
   event_cost_gamma (calibrate_deaths E tgt i) = event_cost_gamma i \<and>
   productivity_cost_gamma (calibrate_deaths E tgt i) = productivity_cost_gamma i \<and>
   (case truthy (tgt_deaths_averted tgt) of
      None \<Rightarrow> calibrate_deaths E tgt i = i
    | Some Dth \<Rightarrow>
        if 0 < E then case_fatality_rate (calibrate_deaths E tgt i) = clamp (Dth / E) 0 (95 / 100)
        else calibrate_deaths E tgt i = i)"
  by (auto simp: calibrate_deaths_def same_exact_def split: option.splits)

lemma bindE_InrD: "bindE m f = Inr y \<Longrightarrow> \<exists>x. m = Inr x \<and> f x = Inr y"
  by (cases m) simp_all

lemma same_exact_refl [simp]: "same_exact i i"
  by (simp add: same_exact_def)

lemma keeps_rates_refl [simp]: "keeps_rates i i"
  by (simp add: keeps_rates_def)

lemma same_exact_trans: "same_exact i j \<Longrightarrow> same_exact j k \<Longrightarrow> same_exact i k"
  by (simp add: same_exact_def)

lemma same_exact_keeps_trans:
  "same_exact i j \<and> keeps_rates i j \<Longrightarrow> same_exact j k \<and> keeps_rates j k \<Longrightarrow>
   same_exact i k \<and> keeps_rates i k"
  by (simp add: same_exact_def keeps_rates_def)

lemma split_savings_cases:
  assumes "split_savings DE Cq Q tgt i = Inr j"
  shows "same_exact i j \<and> keeps_rates i j"
proof (cases "implied_savings tgt")
  case None
  with assms have "j = i" by (simp add: split_savings_def)
  then show ?thesis by simp
next
  case (Some IS)
  obtain I S where "IS = (I, S)" by (cases IS)
  with assms Some show ?thesis
    by (auto simp: split_savings_def Let_def same_exact_def keeps_rates_def dest!: bindE_InrD)
qed

lemma calibrate_qalys_cases:
  assumes "calibrate_qalys D T E tgt i = Inr j"
  shows "same_exact i j \<and> keeps_rates i j"
proof (cases "truthy (tgt_c_per_qaly tgt)")
  case None
  with assms have "j = i" by (simp add: calibrate_qalys_def)
  then show ?thesis by simp
next
  case (Some Cq)
  show ?thesis
  proof (cases "0 < E")
    case False
    with assms Some have "j = i" by (simp add: calibrate_qalys_def)
    then show ?thesis by simp
  next
    case True
    with assms Some obtain a DE Q where
      "split_savings DE Cq Q tgt (i\<lparr>qalys_lost_per_event := a\<rparr>) = Inr j"
      by (auto simp: calibrate_qalys_def Let_def dest!: bindE_InrD)
    then have "same_exact (i\<lparr>qalys_lost_per_event := a\<rparr>) j \<and>
               keeps_rates (i\<lparr>qalys_lost_per_event := a\<rparr>) j"
      by (rule split_savings_cases)
    moreover have "same_exact i (i\<lparr>qalys_lost_per_event := a\<rparr>) \<and>
                   keeps_rates i (i\<lparr>qalys_lost_per_event := a\<rparr>)"
      by (simp add: same_exact_def keeps_rates_def)
    ultimately show ?thesis by (rule same_exact_keeps_trans [rotated])
  qed
qed

lemma calibrate_qalys_absent:
  "truthy (tgt_c_per_qaly tgt) = None \<Longrightarrow> calibrate_qalys D T E tgt i = Inr i"
  by (simp add: calibrate_qalys_def)

lemma renormalise_cases:
  "same_exact i (renormalise i) \<and> keeps_rates i (renormalise i)"
  by (simp add: renormalise_def same_exact_def keeps_rates_def split_beta Let_def)


lemma calibrate_investment_total:
  assumes "0 < N" and "0 < D"
  shows "\<exists>j. calibrate_investment N D tgt i = Inr j"
proof -
  have "real_of_int N * D \<noteq> 0" using assms by simp
  then show ?thesis
    by (cases "tgt_investment tgt") (simp_all add: calibrate_investment_def py_div_def)
qed

lemma calibrate_events_total:
  assumes "0 < N" and "0 < T"
  shows "\<exists>j E. calibrate_events N T rm tgt i = Inr (j, E)"
proof -
  have "real_of_int (N * T) * max rm (1 / 10 ^ 9) \<noteq> 0"
    using assms by (auto simp: max_def)
  then show ?thesis
    by (cases "truthy (tgt_events_prevented tgt)") (simp_all add: calibrate_events_def py_div_def)
qed

lemma split_savings_total:
  assumes "DE \<noteq> 0"
  shows "\<exists>j. split_savings DE Cq Q tgt i = Inr j"
proof (cases "implied_savings tgt")
  case None
  then show ?thesis by (simp add: split_savings_def)
next
  case (Some IS)
  then show ?thesis using assms
    by (cases IS) (simp add: split_savings_def py_div_def Let_def)
qed

lemma calibrate_qalys_total:
  assumes "0 < D" and "0 < T"
  shows "\<exists>j. calibrate_qalys D T E tgt i = Inr j"
proof (cases "truthy (tgt_c_per_qaly tgt)")
  case None
  then show ?thesis by (simp add: calibrate_qalys_def)
next
  case (Some Cq)
  show ?thesis
  proof (cases "0 < E")
    case False
    with Some show ?thesis by (simp add: calibrate_qalys_def)
  next
    case True
    have T: "real_of_int T \<noteq> 0" using assms(2) by simp
    have "D * (E / real_of_int T) * max (utility_weight i) (1 / 10 ^ 9) \<noteq> 0"
      using assms True by (auto simp: max_def)
    moreover have "D * (E / real_of_int T) \<noteq> 0" using assms True by auto
    ultimately show ?thesis
      using Some True T
        split_savings_total [of "D * (E / real_of_int T)" Cq _ tgt]
      by (simp add: calibrate_qalys_def py_div_def Let_def)
  qed
qed

lemma map_of_store: "map_of (interventions (store P key v)) key = Some v"
  by (simp add: store_def AList.update_conv')

lemma store_frame:
  "horizon_years (store P key v) = horizon_years P"
  "discount_rate (store P key v) = discount_rate P"
  "perspective (store P key v) = perspective P"
  "portfolio_adjustments (store P key v) = portfolio_adjustments P"
  "portfolio_adjustments_exact (store P key v) = portfolio_adjustments_exact P"
  by (simp_all add: store_def)

lemma store_keys:
  "key \<in> set (map fst (interventions P)) \<Longrightarrow>
   map fst (interventions (store P key v)) = map fst (interventions P)"
  by (simp add: store_def AList.update_keys)

lemma store_same: "map_of (interventions P) key = Some v \<Longrightarrow> store P key v = P"
  by (simp add: store_def AList.update_triv)

text \<open>The run of \<open>calibrate_intervention\<close> on a populated program under a valid
  configuration: every step returns.\<close>

lemma calibrate_intervention_run:
  assumes key: "map_of (interventions P) key = Some intr"
    and pop: "0 < Result_population intr"
    and hor: "0 < horizon_years P" and rate: "0 \<le> discount_rate P"
    and rm: "rrr_mean_of intr = Inr rm"
  shows "\<exists>i1 i2 E i4.
           calibrate_investment (Result_population intr)
             (\<Sum>t = 1..nat (horizon_years P). 1 / (1 + discount_rate P) ^ t) tgt intr = Inr i1 \<and>
           calibrate_events (Result_population intr) (horizon_years P) rm tgt i1 = Inr (i2, E) \<and>
           calibrate_qalys (\<Sum>t = 1..nat (horizon_years P). 1 / (1 + discount_rate P) ^ t)
             (horizon_years P) E tgt (calibrate_deaths E tgt i2) = Inr i4 \<and>
           calibrate_intervention P key tgt = Inr (store P key (renormalise i4))"
proof -
  define D where "D = (\<Sum>t = 1..nat (horizon_years P). 1 / (1 + discount_rate P) ^ t)"
  have "discount_rate P \<noteq> - 1" using rate by linarith
  then have D: "discount_sum (horizon_years P) (discount_rate P) = Inr D"
    unfolding D_def by (rule discount_sum_ok)
  have Dpos: "0 < D" unfolding D_def using rate hor by (rule discount_pos)
  obtain i1 where i1: "calibrate_investment (Result_population intr) D tgt intr = Inr i1"
    using calibrate_investment_total [OF pop Dpos] by blast
  obtain i2 E where i2: "calibrate_events (Result_population intr) (horizon_years P) rm tgt i1 = Inr (i2, E)"
    using calibrate_events_total [OF pop hor] by blast
  obtain i4 where i4: "calibrate_qalys D (horizon_years P) E tgt (calibrate_deaths E tgt i2) = Inr i4"
    using calibrate_qalys_total [OF Dpos hor] by blast
  have "calibrate_intervention P key tgt = Inr (store P key (renormalise i4))"
    using pop by (simp add: calibrate_intervention_def D key Let_def rm i1 i2 i4)
  with i1 i2 i4 show ?thesis unfolding D_def by blast
qed






subsection \<open>Calibration and the loaded model\<close>

lemma exact_copies_has:
  "rr_lognormal i \<noteq> None \<Longrightarrow> has_exact_copies (exact_copies i)"
  by (auto simp: exact_copies_def has_exact_copies_def Let_def)

lemma exact_copies_fields:
  "Result_population (exact_copies i) = Result_population i"
  "cost_ppy_gamma_exact (exact_copies i) = Some (cost_ppy_gamma i)"
  "cost_ppy_gamma (exact_copies i) = round_gamma (cost_ppy_gamma i)"
  by (simp_all add: exact_copies_def Let_def split: option.splits)

lemma derive_lognormal_fields:
  assumes "derive_lognormal i = Inr j"
  shows "Result_population j = Result_population i" "cost_ppy_gamma j = cost_ppy_gamma i"
    "rrr_beta i \<noteq> None \<Longrightarrow> rr_lognormal j \<noteq> None"
  using assms
  by (auto simp: derive_lognormal_def split: option.splits prod.splits dest!: bindE_InrD)

lemma derive_all_lookup:
  "derive_all xs = Inr ys \<Longrightarrow> map_of xs k = Some i \<Longrightarrow>
   \<exists>j. derive_lognormal i = Inr j \<and> map_of ys k = Some j"
proof (induction xs arbitrary: ys)
  case Nil
  then show ?case by simp
next
  case (Cons x xs)
  obtain k0 i0 where x: "x = (k0, i0)" by (cases x)
  from Cons.prems(1) obtain j0 rest where
    j0: "derive_lognormal i0 = Inr j0" and rest: "derive_all xs = Inr rest"
    and ys: "ys = (k0, j0) # rest"
    unfolding x by (auto dest!: bindE_InrD)
  show ?case
  proof (cases "k = k0")
    case True
    with Cons.prems(2) x have "i = i0" by simp
    with j0 ys True show ?thesis by simp
  next
    case False
    with Cons.prems(2) x have "map_of xs k = Some i" by simp
    from Cons.IH [OF rest this] ys False show ?thesis by simp
  qed
qed

lemma derive_all_total:
  "list_all (\<lambda>kv. case rrr_beta (snd kv) of Some (a, b) \<Rightarrow> 0 < a \<and> 0 < b | None \<Rightarrow> True) xs \<Longrightarrow>
   \<exists>ys. derive_all xs = Inr ys"
proof (induction xs)
  case Nil
  then show ?case by simp
next
  case (Cons x xs)
  obtain k0 i0 where x: "x = (k0, i0)" by (cases x)
  from Cons.prems x have
    b: "case rrr_beta i0 of Some (a, b) \<Rightarrow> 0 < a \<and> 0 < b | None \<Rightarrow> True" by simp
  have "\<exists>j0. derive_lognormal i0 = Inr j0"
    using b
    by (auto simp: derive_lognormal_def beta_rrr_to_lognormal_rr_def Let_def
        split: option.splits prod.splits)
  then obtain j0 where j0: "derive_lognormal i0 = Inr j0" ..
  from Cons obtain rest where "derive_all xs = Inr rest" by auto
  with j0 x show ?case by simp
qed

lemma map_of_exact_copies:
  "map_of (map (\<lambda>(k, intr). (k, exact_copies intr)) ys) k = map_option exact_copies (map_of ys k)"
  by (induction ys) auto

lemma derive_all_keys: "derive_all xs = Inr ys \<Longrightarrow> map fst ys = map fst xs"
proof (induction xs arbitrary: ys)
  case Nil
  then show ?case by simp
next
  case (Cons x xs)
  obtain k0 i0 where x: "x = (k0, i0)" by (cases x)
  from Cons.prems obtain j0 rest where "derive_all xs = Inr rest" "ys = (k0, j0) # rest"
    unfolding x by (auto dest!: bindE_InrD)
  with Cons.IH [of rest] x show ?case by simp
qed

lemma load_parameters_cvd:
  "\<exists>P intr. load_parameters = Inr P \<and> horizon_years P = 10 \<and> discount_rate P = 3 / 100 \<and>
     map fst (interventions P) = [''alzheimers'', ''cancer'', ''cvd'', ''diabetes'', ''osteoporosis''] \<and>
     map_of (interventions P) ''cvd'' = Some intr \<and> has_exact_copies intr \<and>
     Result_population intr = 500000 \<and>
     cost_ppy_gamma_exact intr = Some (5, 384.5160616649235) \<and>
     cost_ppy_gamma intr = (5, 384.5)"
proof -
  have v: "validate_parameters default_params = Inr ()"
    by (simp add: validate_parameters_def default_defs)
  have "list_all (\<lambda>kv. case rrr_beta (snd kv) of Some (a, b) \<Rightarrow> 0 < a \<and> 0 < b | None \<Rightarrow> True)
          (interventions default_params)"
    by (simp add: default_defs)
  then obtain ys where ys: "derive_all (interventions default_params) = Inr ys"
    using derive_all_total by blast
  have "map_of (interventions default_params) ''cvd'' = Some cvd_default"
    by (simp add: default_params_def default_interventions_def)
  from derive_all_lookup [OF ys this] obtain j where
    j: "derive_lognormal cvd_default = Inr j" and m: "map_of ys ''cvd'' = Some j" by blast
  have "rrr_beta cvd_default \<noteq> None" by (simp add: cvd_default_def)
  note f = derive_lognormal_fields [OF j] derive_lognormal_fields(3) [OF j this]
  define P1 where "P1 = default_params\<lparr>interventions := map (\<lambda>(k, intr). (k, exact_copies intr)) ys\<rparr>"
  define P where "P = (case portfolio_adjustments P1 of
                 Some pa \<Rightarrow>
                   P1\<lparr>portfolio_adjustments_exact := Some pa,
                      portfolio_adjustments := Some (map (\<lambda>(k, v). (k, py_round v 3)) pa)\<rparr>
               | None \<Rightarrow> P1)"
  have load: "load_parameters = Inr P"
    unfolding P_def P1_def by (simp add: load_parameters_def load_from_def v ys Let_def)
  have frame: "horizon_years P = 10" "discount_rate P = 3 / 100"
    "interventions P = map (\<lambda>(k, intr). (k, exact_copies intr)) ys"
    by (simp_all add: P_def P1_def default_params_def)
  have look: "map_of (interventions P) ''cvd'' = Some (exact_copies j)"
    by (simp add: frame(3) map_of_exact_copies m)
  have r: "round_gamma (5, 384.5160616649235) = (5, 384.5)"
    by (simp add: round_gamma_def py_round_def Let_def)
  have "has_exact_copies (exact_copies j)" using f(4) by (rule exact_copies_has)
  moreover have "Result_population (exact_copies j) = 500000"
    "cost_ppy_gamma_exact (exact_copies j) = Some (5, 384.5160616649235)"
    "cost_ppy_gamma (exact_copies j) = (5, 384.5)"
    using f(1,2) r by (simp_all add: exact_copies_fields cvd_default_def)
  moreover have "map fst (interventions P) =
      [''alzheimers'', ''cancer'', ''cvd'', ''diabetes'', ''osteoporosis'']"
  proof -
    have c: "fst \<circ> (\<lambda>(k, intr). (k, exact_copies intr)) = fst" by auto
    from derive_all_keys [OF ys] show ?thesis
      by (simp add: frame(3) c default_params_def default_interventions_def)
  qed
  ultimately show ?thesis using load frame(1,2) look
    by (intro exI [of _ P] exI [of _ "exact_copies j"]) simp
qed


lemma calibrate_intervention_result:
  assumes "calibrate_intervention P key tgt = Inr P'"
  shows "\<exists>intr intr'. map_of (interventions P) key = Some intr \<and> P' = store P key intr' \<and>
           same_exact intr intr'"
proof -
  from assms obtain D where D: "discount_sum (horizon_years P) (discount_rate P) = Inr D"
    by (auto simp: calibrate_intervention_def dest!: bindE_InrD)
  from assms D obtain intr where key: "map_of (interventions P) key = Some intr"
    by (cases "map_of (interventions P) key") (simp_all add: calibrate_intervention_def)
  show ?thesis
  proof (cases "Result_population intr \<le> 0")
    case True
    with assms D key have "P' = store P key intr"
      by (simp add: calibrate_intervention_def)
    with key show ?thesis by (intro exI [of _ intr]) simp
  next
    case False
    with assms D key obtain rm i1 i2 E i4 where
      i1: "calibrate_investment (Result_population intr) D tgt intr = Inr i1" and
      i2: "calibrate_events (Result_population intr) (horizon_years P) rm tgt i1 = Inr (i2, E)" and
      i4: "calibrate_qalys D (horizon_years P) E tgt (calibrate_deaths E tgt i2) = Inr i4" and
      P': "P' = store P key (renormalise i4)"
      by (auto simp: calibrate_intervention_def Let_def dest!: bindE_InrD)
    have "same_exact intr i1" using calibrate_investment_cases [OF i1] by simp
    moreover have "same_exact i1 i2" using calibrate_events_cases [OF i2] by simp
    moreover have "same_exact i2 (calibrate_deaths E tgt i2)"
      using calibrate_deaths_cases [of i2 E tgt] by simp
    moreover have "same_exact (calibrate_deaths E tgt i2) i4"
      using calibrate_qalys_cases [OF i4] by simp
    moreover have "same_exact i4 (renormalise i4)" using renormalise_cases [of i4] by simp
    ultimately have "same_exact intr (renormalise i4)"
      by (blast intro: same_exact_trans)
    with key P' show ?thesis by blast
  qed
qed

text \<open>A pass reads the exact copies where there are some, and calibration writes none of
  them: on an entry that has them all, the pass does not see what calibration wrote.\<close>

lemma simulate_entry_same_exact:
  assumes "same_exact i j" and "has_exact_copies i"
  shows "simulate_entry G P j s d = simulate_entry G P i s d"
proof -
  from assms have e:
    "exact_or (annual_event_rate_exact j) (annual_event_rate j) =
       exact_or (annual_event_rate_exact i) (annual_event_rate i)"
    "exact_or (case_fatality_rate_exact j) (case_fatality_rate j) =
       exact_or (case_fatality_rate_exact i) (case_fatality_rate i)"
    "exact_or (utility_weight_exact j) (utility_weight j) =
       exact_or (utility_weight_exact i) (utility_weight i)"
    "exact_or (qalys_lost_per_event_exact j) (qalys_lost_per_event j) =
       exact_or (qalys_lost_per_event_exact i) (qalys_lost_per_event i)"
    "exact_or (life_years_lost_per_death_exact j) (life_years_lost_per_death j) =
       exact_or (life_years_lost_per_death_exact i) (life_years_lost_per_death i)"
    "exact_or (cost_ppy_gamma_exact j) (cost_ppy_gamma j) =
       exact_or (cost_ppy_gamma_exact i) (cost_ppy_gamma i)"
    "exact_or (event_cost_gamma_exact j) (event_cost_gamma j) =
       exact_or (event_cost_gamma_exact i) (event_cost_gamma i)"
    "exact_or (productivity_cost_gamma_exact j) (productivity_cost_gamma j) =
       exact_or (productivity_cost_gamma_exact i) (productivity_cost_gamma i)"
    "Result_population j = Result_population i"
    by (auto simp: same_exact_def has_exact_copies_def exact_or_def)
  from assms obtain ms where ln: "rr_ln_of j = Some ms" "rr_ln_of i = Some ms"
    by (auto simp: same_exact_def has_exact_copies_def rr_ln_of_def)
  have r: "rrr_deterministic j = rrr_deterministic i" "rrr_sampled G j s' = rrr_sampled G i s'" for s'
    by (simp_all add: rrr_deterministic_def rrr_sampled_def ln)
  have "pass_inputs G j d s = pass_inputs G i d s"
    by (simp add: pass_inputs_def e r split_beta Let_def)
  moreover have "pass_outputs P j D inp = pass_outputs P i D inp" for D inp
    by (simp add: pass_outputs_def e split_beta Let_def)
  ultimately show ?thesis by (simp add: simulate_entry_def)
qed

lemma calibration_unseen:
  assumes cal: "calibrate_intervention P key tgt = Inr P'"
    and key: "map_of (interventions P) key = Some intr"
    and ex: "has_exact_copies intr"
  shows "simulate_intervention G P' key s d = simulate_intervention G P key s d"
proof -
  obtain intr' where P': "P' = store P key intr'" and same: "same_exact intr intr'"
    using calibrate_intervention_result [OF cal] key by auto
  have "simulate_entry G P' intr' s d = simulate_entry G P intr' s d"
    by (simp add: simulate_entry_def pass_outputs_def societal_def P' store_frame)
  also have "\<dots> = simulate_entry G P intr s d"
    using same ex by (rule simulate_entry_same_exact)
  finally show ?thesis
    by (simp add: simulate_intervention_def key P' map_of_store)
qed

lemma deterministic_investment:
  assumes key: "map_of (interventions P) key = Some intr"
    and rate: "discount_rate P \<noteq> - 1"
    and c: "exact_or (cost_ppy_gamma_exact intr) (cost_ppy_gamma intr) = (k_c, th_c)"
    and eff: "rrr_deterministic intr = Inr rrr"
  shows "\<exists>res. simulate_intervention G P key s True = Inr (res, s) \<and>
           investment res = real_of_int (Result_population intr) * (k_c * th_c) *
             (\<Sum>t = 1..nat (horizon_years P). 1 / (1 + discount_rate P) ^ t)"
proof -
  have "discount_sum (horizon_years P) (discount_rate P) =
          Inr (\<Sum>t = 1..nat (horizon_years P). 1 / (1 + discount_rate P) ^ t)"
    using rate by (rule discount_sum_ok)
  then show ?thesis
    by (simp add: simulate_intervention_def simulate_entry_def key pass_inputs_deterministic eff c
        pass_outputs_def Let_def)
qed


lemma has_exact_copies_channel:
  assumes "has_exact_copies i"
  shows "\<exists>rm. rrr_mean_of i = Inr rm" "\<exists>rrr. rrr_deterministic i = Inr rrr"
proof -
  from assms obtain mu sigma where "rr_ln_of i = Some (mu, sigma)"
    by (auto simp: has_exact_copies_def rr_ln_of_def)
  then show "\<exists>rm. rrr_mean_of i = Inr rm" "\<exists>rrr. rrr_deterministic i = Inr rrr"
    by (simp_all add: rrr_mean_of_def rrr_deterministic_def)
qed

lemma annuity_10: "(\<Sum>t = 1..10. 1 / (1 + 3 / 100 :: real) ^ t) =
    1146387931147073068300 / 134391637934412192049"
proof -
  have "discount_sum 10 (3 / 100) = Inr (\<Sum>t = 1..nat 10. 1 / (1 + 3 / 100) ^ t)"
    by (rule discount_sum_ok) simp
  then show ?thesis by (simp add: D10)
qed

text \<open>
  C3, evaluated on the loaded model: program \<open>cvd\<close> (\<open>N = 500000\<close>, \<open>T = 10\<close>,
  \<open>r = 0.03\<close>), the single target \<open>investment = 1e9\<close>. The calibration does write the program-cost Gamma whose mean gives
  an investment of 1e9, but into the visible entry; the deterministic pass reads the exact
  copy that \<^verbatim>\<open>load_parameters\<close> made, and returns the investment of before, above 8e9.
\<close>

theorem calibration_round_trip_after_load:
  "\<exists>P A ch intr' res.
     load_parameters = Inr P \<and>
     calibrate example_generator \<lparr> self_parameters = P, self_results_markov = None \<rparr>
       [(''cvd'', investment_target)] no_port_target = Inr (A, ch) \<and>
     map_of (interventions (self_parameters A)) ''cvd'' = Some intr' \<and>
     Result_population intr' = 500000 \<and>
     5 * snd (cost_ppy_gamma intr') = 10 ^ 9 / (500000 * (\<Sum>t = 1..10. 1 / (1 + 3 / 100) ^ t)) \<and>
     cost_ppy_gamma_exact intr' = Some (5, 384.5160616649235) \<and>
     simulate_intervention example_generator (self_parameters A) ''cvd'' 0 True = Inr (res, 0) \<and>
     investment res = 500000 * (5 * 384.5160616649235) * (\<Sum>t = 1..10. 1 / (1 + 3 / 100) ^ t) \<and>
     8 * 10 ^ 9 < investment res"
proof -
  obtain P intr where load: "load_parameters = Inr P"
    and T: "horizon_years P = 10" and r: "discount_rate P = 3 / 100"
    and key: "map_of (interventions P) ''cvd'' = Some intr"
    and ex: "has_exact_copies intr" and N: "Result_population intr = 500000"
    and ce: "cost_ppy_gamma_exact intr = Some (5, 384.5160616649235)"
    and cv: "cost_ppy_gamma intr = (5, 384.5)"
    using load_parameters_cvd by blast
  obtain rm where rm: "rrr_mean_of intr = Inr rm" using has_exact_copies_channel(1) [OF ex] ..
  obtain rrr where rrr: "rrr_deterministic intr = Inr rrr"
    using has_exact_copies_channel(2) [OF ex] ..
  have pop: "0 < Result_population intr" and hor: "0 < horizon_years P"
    and rate: "0 \<le> discount_rate P" by (simp_all add: N T r)
  obtain i1 i2 E i4 where
    i1: "calibrate_investment (Result_population intr)
           (\<Sum>t = 1..nat (horizon_years P). 1 / (1 + discount_rate P) ^ t) investment_target intr =
         Inr i1" and
    i2: "calibrate_events (Result_population intr) (horizon_years P) rm investment_target i1 =
         Inr (i2, E)" and
    i4: "calibrate_qalys (\<Sum>t = 1..nat (horizon_years P). 1 / (1 + discount_rate P) ^ t)
           (horizon_years P) E investment_target (calibrate_deaths E investment_target i2) = Inr i4"
    and cal: "calibrate_intervention P ''cvd'' investment_target = Inr (store P ''cvd'' (renormalise i4))"
    using calibrate_intervention_run [OF key pop hor rate rm, of investment_target] by blast
  define intr' where "intr' = renormalise i4"
  define P' where "P' = store P ''cvd'' intr'"
  have cal': "calibrate_intervention P ''cvd'' investment_target = Inr P'"
    using cal by (simp add: P'_def intr'_def)
  have known: "''cvd'' \<in> set (map fst (interventions P))"
    using key by (metis map_of_eq_None_iff option.distinct(1) set_map)
  have whole: "calibrate example_generator \<lparr> self_parameters = P, self_results_markov = None \<rparr>
       [(''cvd'', investment_target)] no_port_target =
     Inr (\<lparr> self_parameters = P', self_results_markov = None \<rparr>,
          \<lparr> changed_per_intervention = [''cvd''], portfolio_first = False, adjusted = None \<rparr>)"
    using known by (simp add: calibrate_def cal' no_port_target_def truthy_def Let_def)
  have look: "map_of (interventions P') ''cvd'' = Some intr'"
    unfolding P'_def by (rule map_of_store)
  obtain j where Pj: "P' = store P ''cvd'' j" and sj: "same_exact intr j"
    using calibrate_intervention_result [OF cal'] key by auto
  have "map_of (interventions P') ''cvd'' = Some j" unfolding Pj by (rule map_of_store)
  with look have "j = intr'" by simp
  with sj have same: "same_exact intr intr'" by simp
  have cost: "cost_ppy_gamma intr' = cost_ppy_gamma i1"
    using calibrate_events_cases [OF i2] calibrate_deaths_cases [of i2 E investment_target]
      calibrate_qalys_cases [OF i4] renormalise_cases [of i4]
    by (simp add: keeps_rates_def intr'_def)
  have "tgt_investment investment_target = Some (10 ^ 9)"
    by (simp add: investment_target_def no_target_def)
  with calibrate_investment_cases [OF i1] have
    "cost_ppy_gamma i1 = (5, (10 ^ 9 / (500000 * (\<Sum>t = 1..10. 1 / (1 + 3 / 100) ^ t))) / 5)"
    by (simp add: N T r cv)
  with cost have wrote:
    "5 * snd (cost_ppy_gamma intr') = 10 ^ 9 / (500000 * (\<Sum>t = 1..10. 1 / (1 + 3 / 100) ^ t))"
    by simp
  have kept: "cost_ppy_gamma_exact intr' = Some (5, 384.5160616649235)"
    "Result_population intr' = 500000"
    using same ce N by (simp_all add: same_exact_def)
  have c: "exact_or (cost_ppy_gamma_exact intr) (cost_ppy_gamma intr) = (5, 384.5160616649235)"
    by (simp add: ce exact_or_def)
  have rate': "discount_rate P \<noteq> - 1" by (simp add: r)
  obtain res where
    run: "simulate_intervention example_generator P ''cvd'' 0 True = Inr (res, 0)" and
    inv: "investment res = real_of_int (Result_population intr) * (5 * 384.5160616649235) *
            (\<Sum>t = 1..nat (horizon_years P). 1 / (1 + discount_rate P) ^ t)"
    using deterministic_investment [OF key rate' c rrr, of example_generator 0] by blast
  have run': "simulate_intervention example_generator P' ''cvd'' 0 True = Inr (res, 0)"
    using calibration_unseen [OF cal' key ex, of example_generator 0 True] run by simp
  have inv': "investment res = 500000 * (5 * 384.5160616649235) * (\<Sum>t = 1..10. 1 / (1 + 3 / 100) ^ t)"
    using inv by (simp add: N T r)
  have big: "8 * 10 ^ 9 < investment res"
    unfolding inv' annuity_10 by simp
  show ?thesis
    using load whole look kept wrote run' inv' big
    by (intro exI [of _ P] exI [of _ "\<lparr> self_parameters = P', self_results_markov = None \<rparr>"]
        exI [of _ "\<lparr> changed_per_intervention = [''cvd''], portfolio_first = False, adjusted = None \<rparr>"]
        exI [of _ intr'] exI [of _ res]) simp
qed

subsection \<open>Calibration over the targets\<close>

lemma calibrate_intervention_keys:
  assumes "calibrate_intervention P k t = Inr P'"
  shows "map fst (interventions P') = map fst (interventions P)"
proof -
  obtain intr intr' where key: "map_of (interventions P) k = Some intr"
    and P': "P' = store P k intr'"
    using calibrate_intervention_result [OF assms] by blast
  from key have "k \<in> set (map fst (interventions P))"
    by (metis map_of_eq_None_iff option.distinct(1) set_map)
  then show ?thesis unfolding P' by (rule store_keys)
qed

lemma calibrate_each_skip:
  "calibrate_each P xs =
     calibrate_each P (filter (\<lambda>kt. fst kt \<in> set (map fst (interventions P))) xs)"
proof (induction xs arbitrary: P)
  case Nil
  show ?case by simp
next
  case (Cons x xs)
  obtain k t where x: "x = (k, t)" by (cases x)
  show ?case
  proof (cases "k \<in> set (map fst (interventions P))")
    case False
    with Cons.IH [of P] x show ?thesis by simp
  next
    case True
    show ?thesis
    proof (cases "calibrate_intervention P k t")
      case (Inl e)
      with True x show ?thesis by simp
    next
      case (Inr P')
      have "map fst (interventions P') = map fst (interventions P)"
        using Inr by (rule calibrate_intervention_keys)
      with Cons.IH [of P'] True x Inr show ?thesis by simp
    qed
  qed
qed

lemma calibrate_each_keys:
  "calibrate_each P xs = Inr P1 \<Longrightarrow> map fst (interventions P1) = map fst (interventions P)"
proof (induction xs arbitrary: P)
  case Nil
  then show ?case by simp
next
  case (Cons x xs)
  obtain k t where x: "x = (k, t)" by (cases x)
  show ?case
  proof (cases "k \<in> set (map fst (interventions P))")
    case False
    with Cons x show ?thesis by simp
  next
    case True
    with Cons.prems x obtain P' where c: "calibrate_intervention P k t = Inr P'"
      and r: "calibrate_each P' xs = Inr P1"
      by (auto dest!: bindE_InrD)
    from Cons.IH [OF r] calibrate_intervention_keys [OF c] show ?thesis by simp
  qed
qed

lemma map_of_filter_fst:
  "Q k \<Longrightarrow> map_of (filter (\<lambda>kt. Q (fst kt)) xs) k = map_of xs k"
  by (induction xs) auto

lemma never_written_refl [simp]: "never_written i i"
  by (simp add: never_written_def)

lemma never_written_trans: "never_written i j \<Longrightarrow> never_written j k \<Longrightarrow> never_written i k"
  by (simp add: never_written_def same_exact_def)

lemma calibrate_investment_frame:
  assumes "calibrate_investment N D tgt i = Inr j"
  shows "never_written i j \<and> qalys_lost_per_event j = qalys_lost_per_event i"
  using assms
  by (auto simp: calibrate_investment_def never_written_def same_exact_def
      dest!: bindE_InrD split: option.splits)

lemma calibrate_events_frame:
  assumes "calibrate_events N T rm tgt i = Inr (j, E)"
  shows "never_written i j \<and> qalys_lost_per_event j = qalys_lost_per_event i"
  using assms
  by (auto simp: calibrate_events_def never_written_def same_exact_def
      dest!: bindE_InrD split: option.splits)

lemma calibrate_deaths_frame:
  "never_written i (calibrate_deaths E tgt i) \<and>
   qalys_lost_per_event (calibrate_deaths E tgt i) = qalys_lost_per_event i"
  by (auto simp: calibrate_deaths_def never_written_def same_exact_def split: option.splits)

lemma split_savings_frame:
  assumes "split_savings DE Cq Q tgt i = Inr j"
  shows "never_written i j \<and> qalys_lost_per_event j = qalys_lost_per_event i \<and>
         (implied_savings tgt = None \<longrightarrow> j = i)"
proof (cases "implied_savings tgt")
  case None
  with assms have "j = i" by (simp add: split_savings_def)
  then show ?thesis by simp
next
  case (Some IS)
  obtain I S where "IS = (I, S)" by (cases IS)
  with assms Some show ?thesis
    by (auto simp: split_savings_def Let_def never_written_def same_exact_def dest!: bindE_InrD)
qed

lemma calibrate_qalys_frame:
  assumes "calibrate_qalys D T E tgt i = Inr j"
  shows "never_written i j \<and>
         (truthy (tgt_c_per_qaly tgt) = None \<longrightarrow> j = i) \<and>
         (implied_savings tgt = None \<longrightarrow>
            event_cost_gamma j = event_cost_gamma i \<and>
            productivity_cost_gamma j = productivity_cost_gamma i)"
proof (cases "truthy (tgt_c_per_qaly tgt)")
  case None
  with assms have "j = i" by (simp add: calibrate_qalys_def)
  then show ?thesis by simp
next
  case (Some Cq)
  show ?thesis
  proof (cases "0 < E")
    case False
    with assms Some have "j = i" by (simp add: calibrate_qalys_def)
    then show ?thesis by simp
  next
    case True
    with assms Some obtain a DE Q where
      s: "split_savings DE Cq Q tgt (i\<lparr>qalys_lost_per_event := a\<rparr>) = Inr j"
      by (auto simp: calibrate_qalys_def Let_def dest!: bindE_InrD)
    have "never_written (i\<lparr>qalys_lost_per_event := a\<rparr>) j"
      using split_savings_frame [OF s] by simp
    moreover have "never_written i (i\<lparr>qalys_lost_per_event := a\<rparr>)"
      by (simp add: never_written_def same_exact_def)
    ultimately have "never_written i j" by (rule never_written_trans [rotated])
    moreover have "event_cost_gamma j = event_cost_gamma i \<and>
            productivity_cost_gamma j = productivity_cost_gamma i" if "implied_savings tgt = None"
      using split_savings_frame [OF s] that by simp
    ultimately show ?thesis using Some by simp
  qed
qed

lemma renormalise_frame:
  "never_written i (renormalise i) \<and>
   qalys_lost_per_event (renormalise i) = qalys_lost_per_event i \<and>
   event_cost_gamma (renormalise i) =
     set_gamma_mean (fst (event_cost_gamma i))
       (max 0 (fst (event_cost_gamma i) * snd (event_cost_gamma i))) \<and>
   productivity_cost_gamma (renormalise i) =
     set_gamma_mean (fst (productivity_cost_gamma i))
       (max 0 (fst (productivity_cost_gamma i) * snd (productivity_cost_gamma i)))"
  by (simp add: renormalise_def never_written_def same_exact_def split_beta Let_def)

text \<open>What one call of \<open>calibrate_intervention\<close> leaves alone, field by field of the
  target.\<close>

lemma calibrate_intervention_frame:
  assumes key: "map_of (interventions P) key = Some intr"
    and pop: "0 < Result_population intr"
    and hor: "0 < horizon_years P" and rate: "0 \<le> discount_rate P"
    and rm: "rrr_mean_of intr = Inr rm"
  shows "\<exists>intr'.
           calibrate_intervention P key tgt = Inr (store P key intr') \<and>
           never_written intr intr' \<and>
           (tgt_investment tgt = None \<longrightarrow> cost_ppy_gamma intr' = cost_ppy_gamma intr) \<and>
           (truthy (tgt_events_prevented tgt) = None \<longrightarrow>
              annual_event_rate intr' = annual_event_rate intr \<and> rrr_beta intr' = rrr_beta intr) \<and>
           (truthy (tgt_deaths_averted tgt) = None \<longrightarrow>
              case_fatality_rate intr' = case_fatality_rate intr) \<and>
           (truthy (tgt_c_per_qaly tgt) = None \<longrightarrow>
              qalys_lost_per_event intr' = qalys_lost_per_event intr) \<and>
           (truthy (tgt_c_per_qaly tgt) = None \<or> implied_savings tgt = None \<longrightarrow>
              event_cost_gamma intr' =
                set_gamma_mean (fst (event_cost_gamma intr))
                  (max 0 (fst (event_cost_gamma intr) * snd (event_cost_gamma intr))) \<and>
              productivity_cost_gamma intr' =
                set_gamma_mean (fst (productivity_cost_gamma intr))
                  (max 0 (fst (productivity_cost_gamma intr) * snd (productivity_cost_gamma intr))))"
proof -
  let ?D = "\<Sum>t = 1..nat (horizon_years P). 1 / (1 + discount_rate P) ^ t"
  obtain i1 i2 E i4 where
    i1: "calibrate_investment (Result_population intr) ?D tgt intr = Inr i1" and
    i2: "calibrate_events (Result_population intr) (horizon_years P) rm tgt i1 = Inr (i2, E)" and
    i4: "calibrate_qalys ?D (horizon_years P) E tgt (calibrate_deaths E tgt i2) = Inr i4" and
    run: "calibrate_intervention P key tgt = Inr (store P key (renormalise i4))"
    using calibrate_intervention_run [OF key pop hor rate rm, of tgt]
    by (elim exE conjE) (rule that)
  let ?i3 = "calibrate_deaths E tgt i2"
  note c1 = calibrate_investment_cases [OF i1] and f1 = calibrate_investment_frame [OF i1]
  note c2 = calibrate_events_cases [OF i2] and f2 = calibrate_events_frame [OF i2]
  note c3 = calibrate_deaths_cases [of i2 E tgt] and f3 = calibrate_deaths_frame [of i2 E tgt]
  note c4 = calibrate_qalys_cases [OF i4] and f4 = calibrate_qalys_frame [OF i4]
  note c5 = renormalise_cases [of i4] and f5 = renormalise_frame [of i4]
  have nw: "never_written intr (renormalise i4)"
    using f1 [THEN conjunct1] f2 [THEN conjunct1] f3 [THEN conjunct1] f4 [THEN conjunct1]
      f5 [THEN conjunct1]
    by (blast intro: never_written_trans)
  have cost: "cost_ppy_gamma (renormalise i4) = cost_ppy_gamma intr" if "tgt_investment tgt = None"
    using c1 c2 c3 c4 c5 that by (simp add: keeps_rates_def)
  have ev: "annual_event_rate (renormalise i4) = annual_event_rate intr \<and>
            rrr_beta (renormalise i4) = rrr_beta intr"
    if "truthy (tgt_events_prevented tgt) = None"
    using c1 c2 c3 c4 c5 that by (simp add: keeps_rates_def)
  have de: "case_fatality_rate (renormalise i4) = case_fatality_rate intr"
    if "truthy (tgt_deaths_averted tgt) = None"
    using c1 c2 c3 c4 c5 that by (simp add: keeps_rates_def)
  have ql: "qalys_lost_per_event (renormalise i4) = qalys_lost_per_event intr"
    if "truthy (tgt_c_per_qaly tgt) = None"
    using f1 f2 f3 f4 f5 that by simp
  have g4: "event_cost_gamma i4 = event_cost_gamma intr \<and>
            productivity_cost_gamma i4 = productivity_cost_gamma intr"
    if "truthy (tgt_c_per_qaly tgt) = None \<or> implied_savings tgt = None"
    using c1 c2 c3 f4 that by auto
  have ga: "event_cost_gamma (renormalise i4) =
                set_gamma_mean (fst (event_cost_gamma intr))
                  (max 0 (fst (event_cost_gamma intr) * snd (event_cost_gamma intr))) \<and>
              productivity_cost_gamma (renormalise i4) =
                set_gamma_mean (fst (productivity_cost_gamma intr))
                  (max 0 (fst (productivity_cost_gamma intr) * snd (productivity_cost_gamma intr)))"
    if "truthy (tgt_c_per_qaly tgt) = None \<or> implied_savings tgt = None"
    using g4 [OF that] f5 by simp
  show ?thesis
    using run nw cost ev de ql ga by (intro exI [of _ "renormalise i4"]) simp
qed

text \<open>
  C5, as the code has it. A per-program target whose key is not an intervention is passed
  over: \<^verbatim>\<open>calibrate\<close> does what it does without that entry, and only the change record
  still lists the key; when no key is known and there is no portfolio target, it returns the
  model unchanged. A target for a known key, on a populated program under a positive
  horizon and a discount rate that is not negative, whose effect channel gives a mean, is
  no error whatever fields it lacks, and each absent field leaves its parameters as they
  were: without \<open>investment\<close> the program-cost Gamma, without a nonzero
  \<open>events_prevented\<close> the annual event rate and the Beta of the risk reduction, without
  a nonzero \<open>deaths_averted\<close> the case-fatality rate, without a nonzero \<open>c_per_qaly\<close>
  the QALYs lost per event. The population, the exact copies, the log-normal channel, the
  label, the utility weight and the life-years lost per death are never written. The two
  per-event cost Gammas are written on every call: without a nonzero \<open>c_per_qaly\<close>, or
  without both \<open>roi_ratio\<close> and \<open>investment\<close>, each is set to its renormalised form
  \<open>set_gamma_mean k (max 0 (k * theta))\<close>, that is \<open>[k, max(0, k * theta) / max(k, 1e-12)]\<close>.
\<close>

theorem unknown_keys_passed_over:
  fixes A :: analysis and G :: "'s generator" and per_results :: "(string \<times> target) list"
  defines "P \<equiv> self_parameters A"
  defines "known \<equiv> filter (\<lambda>kt. fst kt \<in> set (map fst (interventions P))) per_results"
  shows "calibrate G A per_results port_results =
           bindE (calibrate G A known port_results)
             (\<lambda>(A', ch). Inr (A', ch\<lparr>changed_per_intervention := map fst per_results\<rparr>)) \<and>
         (known = [] \<and> truthy (benefits_total port_results) = None \<longrightarrow>
            calibrate G A per_results port_results =
              Inr (A, \<lparr> changed_per_intervention = map fst per_results, portfolio_first = False,
                       adjusted = None \<rparr>)) \<and>
         (\<forall>key intr tgt rm.
            map_of (interventions P) key = Some intr \<and> 0 < Result_population intr \<and>
            0 < horizon_years P \<and> 0 \<le> discount_rate P \<and> rrr_mean_of intr = Inr rm \<longrightarrow>
            (\<exists>intr'.
               calibrate G A [(key, tgt)] no_port_target =
                 Inr (A\<lparr>self_parameters := store P key intr'\<rparr>,
                      \<lparr> changed_per_intervention = [key], portfolio_first = False,
                        adjusted = None \<rparr>) \<and>
               never_written intr intr' \<and>
               (tgt_investment tgt = None \<longrightarrow> cost_ppy_gamma intr' = cost_ppy_gamma intr) \<and>
               (truthy (tgt_events_prevented tgt) = None \<longrightarrow>
                  annual_event_rate intr' = annual_event_rate intr \<and>
                  rrr_beta intr' = rrr_beta intr) \<and>
               (truthy (tgt_deaths_averted tgt) = None \<longrightarrow>
                  case_fatality_rate intr' = case_fatality_rate intr) \<and>
               (truthy (tgt_c_per_qaly tgt) = None \<longrightarrow>
                  qalys_lost_per_event intr' = qalys_lost_per_event intr) \<and>
               (truthy (tgt_c_per_qaly tgt) = None \<or> implied_savings tgt = None \<longrightarrow>
                  event_cost_gamma intr' =
                    set_gamma_mean (fst (event_cost_gamma intr))
                      (max 0 (fst (event_cost_gamma intr) * snd (event_cost_gamma intr))) \<and>
                  productivity_cost_gamma intr' =
                    set_gamma_mean (fst (productivity_cost_gamma intr))
                      (max 0 (fst (productivity_cost_gamma intr) *
                              snd (productivity_cost_gamma intr))))))"
proof -
  have each: "calibrate_each P per_results = calibrate_each P known"
    unfolding known_def by (rule calibrate_each_skip)
  have first: "calibrate G A per_results port_results =
           bindE (calibrate G A known port_results)
             (\<lambda>(A', ch). Inr (A', ch\<lparr>changed_per_intervention := map fst per_results\<rparr>))"
  proof (cases "calibrate_each P known")
    case (Inl e)
    then show ?thesis by (simp add: calibrate_def each P_def [symmetric])
  next
    case (Inr P1)
    have keys: "map fst (interventions P1) = map fst (interventions P)"
      using Inr by (rule calibrate_each_keys)
    have look: "map_of known k = map_of per_results k" if "k \<in> set (map fst (interventions P1))" for k
      unfolding known_def using that keys
      by (intro map_of_filter_fst [of "\<lambda>k. k \<in> set (map fst (interventions P))"]) simp
    show ?thesis
    proof (cases "truthy (benefits_total port_results)")
      case None
      then show ?thesis by (simp add: calibrate_def each Inr P_def [symmetric])
    next
      case (Some B)
      show ?thesis
      proof (cases "run_markov_models G P1 True 123")
        case (Inl e)
        then show ?thesis by (simp add: calibrate_def each Inr Some P_def [symmetric])
      next
        case out1: (Inr out1)
        let ?k = "exact_or (adjust_intervention port_results) ''alzheimers''"
        show ?thesis
        proof (cases "?k \<in> set (map fst (interventions P1))")
          case False
          then show ?thesis
            by (simp add: calibrate_def each Inr Some out1 P_def [symmetric] Let_def)
        next
          case True
          note l = look [OF True]
          show ?thesis
            using True
            by (simp add: calibrate_def each Inr Some out1 P_def [symmetric] Let_def l
                bindE_def split: option.splits sum.splits)
        qed
      qed
    qed
  qed
  have second: "calibrate G A per_results port_results =
              Inr (A, \<lparr> changed_per_intervention = map fst per_results, portfolio_first = False,
                       adjusted = None \<rparr>)"
    if "known = [] \<and> truthy (benefits_total port_results) = None"
    using that by (simp add: calibrate_def each [unfolded P_def])
  have third: "\<exists>intr'.
               calibrate G A [(key, tgt)] no_port_target =
                 Inr (A\<lparr>self_parameters := store P key intr'\<rparr>,
                      \<lparr> changed_per_intervention = [key], portfolio_first = False,
                        adjusted = None \<rparr>) \<and>
               never_written intr intr' \<and>
               (tgt_investment tgt = None \<longrightarrow> cost_ppy_gamma intr' = cost_ppy_gamma intr) \<and>
               (truthy (tgt_events_prevented tgt) = None \<longrightarrow>
                  annual_event_rate intr' = annual_event_rate intr \<and>
                  rrr_beta intr' = rrr_beta intr) \<and>
               (truthy (tgt_deaths_averted tgt) = None \<longrightarrow>
                  case_fatality_rate intr' = case_fatality_rate intr) \<and>
               (truthy (tgt_c_per_qaly tgt) = None \<longrightarrow>
                  qalys_lost_per_event intr' = qalys_lost_per_event intr) \<and>
               (truthy (tgt_c_per_qaly tgt) = None \<or> implied_savings tgt = None \<longrightarrow>
                  event_cost_gamma intr' =
                    set_gamma_mean (fst (event_cost_gamma intr))
                      (max 0 (fst (event_cost_gamma intr) * snd (event_cost_gamma intr))) \<and>
                  productivity_cost_gamma intr' =
                    set_gamma_mean (fst (productivity_cost_gamma intr))
                      (max 0 (fst (productivity_cost_gamma intr) *
                              snd (productivity_cost_gamma intr))))"
    if h: "map_of (interventions P) key = Some intr \<and> 0 < Result_population intr \<and>
        0 < horizon_years P \<and> 0 \<le> discount_rate P \<and> rrr_mean_of intr = Inr rm"
    for key intr tgt rm
  proof -
    from h have key: "map_of (interventions P) key = Some intr" by simp
    then have known: "key \<in> set (map fst (interventions P))"
      by (metis map_of_eq_None_iff option.distinct(1) set_map)
    from h have "\<exists>intr'.
        calibrate_intervention P key tgt = Inr (store P key intr') \<and>
        never_written intr intr' \<and>
        (tgt_investment tgt = None \<longrightarrow> cost_ppy_gamma intr' = cost_ppy_gamma intr) \<and>
        (truthy (tgt_events_prevented tgt) = None \<longrightarrow>
           annual_event_rate intr' = annual_event_rate intr \<and>
           rrr_beta intr' = rrr_beta intr) \<and>
        (truthy (tgt_deaths_averted tgt) = None \<longrightarrow>
           case_fatality_rate intr' = case_fatality_rate intr) \<and>
        (truthy (tgt_c_per_qaly tgt) = None \<longrightarrow>
           qalys_lost_per_event intr' = qalys_lost_per_event intr) \<and>
        (truthy (tgt_c_per_qaly tgt) = None \<or> implied_savings tgt = None \<longrightarrow>
           event_cost_gamma intr' =
             set_gamma_mean (fst (event_cost_gamma intr))
               (max 0 (fst (event_cost_gamma intr) * snd (event_cost_gamma intr))) \<and>
           productivity_cost_gamma intr' =
             set_gamma_mean (fst (productivity_cost_gamma intr))
               (max 0 (fst (productivity_cost_gamma intr) *
                       snd (productivity_cost_gamma intr))))"
      by (intro calibrate_intervention_frame [of P key intr rm tgt]) simp_all
    then obtain intr' where x:
       "calibrate_intervention P key tgt = Inr (store P key intr') \<and>
        never_written intr intr' \<and>
        (tgt_investment tgt = None \<longrightarrow> cost_ppy_gamma intr' = cost_ppy_gamma intr) \<and>
        (truthy (tgt_events_prevented tgt) = None \<longrightarrow>
           annual_event_rate intr' = annual_event_rate intr \<and>
           rrr_beta intr' = rrr_beta intr) \<and>
        (truthy (tgt_deaths_averted tgt) = None \<longrightarrow>
           case_fatality_rate intr' = case_fatality_rate intr) \<and>
        (truthy (tgt_c_per_qaly tgt) = None \<longrightarrow>
           qalys_lost_per_event intr' = qalys_lost_per_event intr) \<and>
        (truthy (tgt_c_per_qaly tgt) = None \<or> implied_savings tgt = None \<longrightarrow>
           event_cost_gamma intr' =
             set_gamma_mean (fst (event_cost_gamma intr))
               (max 0 (fst (event_cost_gamma intr) * snd (event_cost_gamma intr))) \<and>
           productivity_cost_gamma intr' =
             set_gamma_mean (fst (productivity_cost_gamma intr))
               (max 0 (fst (productivity_cost_gamma intr) *
                       snd (productivity_cost_gamma intr))))" ..
    have cal: "calibrate G A [(key, tgt)] no_port_target =
            Inr (A\<lparr>self_parameters := store P key intr'\<rparr>,
                 \<lparr> changed_per_intervention = [key], portfolio_first = False, adjusted = None \<rparr>)"
      using known x [THEN conjunct1] unfolding P_def
      by (simp add: calibrate_def no_port_target_def truthy_def)
    show ?thesis
      by (rule exI [of _ intr'], rule conjI [OF cal x [THEN conjunct2]])
  qed
  from first second third show ?thesis by blast
qed

theorem unknown_keys_passed_over_witness:
  "calibrate example_generator default_analysis
     [(''stroke'', investment_target), (''cvd'', no_target)] no_port_target =
     bindE (calibrate example_generator default_analysis [(''cvd'', no_target)] no_port_target)
       (\<lambda>(A', ch). Inr (A', ch\<lparr>changed_per_intervention := [''stroke'', ''cvd'']\<rparr>)) \<and>
   filter (\<lambda>kt. fst kt \<in> set (map fst (interventions (self_parameters default_analysis))))
     [(''stroke'', investment_target)] = [] \<and>
   truthy (benefits_total no_port_target) = None \<and>
   calibrate example_generator default_analysis [(''stroke'', investment_target)] no_port_target =
     Inr (default_analysis,
          \<lparr> changed_per_intervention = [''stroke''], portfolio_first = False, adjusted = None \<rparr>) \<and>
   map_of (interventions (self_parameters default_analysis)) ''cvd'' = Some cvd_default \<and>
   0 < Result_population cvd_default \<and>
   0 < horizon_years (self_parameters default_analysis) \<and>
   0 \<le> discount_rate (self_parameters default_analysis) \<and>
   rrr_mean_of cvd_default = Inr (2075 / 10000) \<and>
   tgt_investment no_target = None \<and> truthy (tgt_events_prevented no_target) = None \<and>
   truthy (tgt_deaths_averted no_target) = None \<and> truthy (tgt_c_per_qaly no_target) = None \<and>
   (\<exists>intr'.
      calibrate example_generator default_analysis [(''cvd'', no_target)] no_port_target =
        Inr (default_analysis\<lparr>self_parameters := store default_params ''cvd'' intr'\<rparr>,
             \<lparr> changed_per_intervention = [''cvd''], portfolio_first = False, adjusted = None \<rparr>) \<and>
      never_written cvd_default intr' \<and>
      cost_ppy_gamma intr' = cost_ppy_gamma cvd_default \<and>
      annual_event_rate intr' = annual_event_rate cvd_default \<and>
      rrr_beta intr' = rrr_beta cvd_default \<and>
      case_fatality_rate intr' = case_fatality_rate cvd_default \<and>
      qalys_lost_per_event intr' = qalys_lost_per_event cvd_default \<and>
      event_cost_gamma intr' =
        set_gamma_mean (fst (event_cost_gamma cvd_default))
          (max 0 (fst (event_cost_gamma cvd_default) * snd (event_cost_gamma cvd_default))) \<and>
      productivity_cost_gamma intr' =
        set_gamma_mean (fst (productivity_cost_gamma cvd_default))
          (max 0 (fst (productivity_cost_gamma cvd_default) *
                  snd (productivity_cost_gamma cvd_default))))"
proof -
  have f2: "filter (\<lambda>kt. fst kt \<in> set (map fst (interventions (self_parameters default_analysis))))
     [(''stroke'', investment_target), (''cvd'', no_target)] = [(''cvd'', no_target)]"
    by (simp add: default_analysis_def default_params_def default_interventions_def)
  have f1: "filter (\<lambda>kt. fst kt \<in> set (map fst (interventions (self_parameters default_analysis))))
     [(''stroke'', investment_target)] = []"
    by (simp add: default_analysis_def default_params_def default_interventions_def)
  have t: "truthy (benefits_total no_port_target) = None"
    by (simp add: no_port_target_def truthy_def)
  have p: "self_parameters default_analysis = default_params"
    by (simp add: default_analysis_def)
  have h: "map_of (interventions (self_parameters default_analysis)) ''cvd'' = Some cvd_default \<and>
      0 < Result_population cvd_default \<and>
      0 < horizon_years (self_parameters default_analysis) \<and>
      0 \<le> discount_rate (self_parameters default_analysis) \<and>
      rrr_mean_of cvd_default = Inr (2075 / 10000)"
    by (simp add: default_analysis_def default_params_def default_interventions_def cvd_default_def
        rrr_mean_of_def rr_ln_of_def exact_or_def py_div_def)
  have n: "tgt_investment no_target = None" "truthy (tgt_events_prevented no_target) = None"
    "truthy (tgt_deaths_averted no_target) = None" "truthy (tgt_c_per_qaly no_target) = None"
    by (simp_all add: no_target_def truthy_def)
  note a = unknown_keys_passed_over [of example_generator default_analysis
      "[(''stroke'', investment_target), (''cvd'', no_target)]" no_port_target, unfolded f2]
  note b = unknown_keys_passed_over [of example_generator default_analysis
      "[(''stroke'', investment_target)]" no_port_target, unfolded f1]
  have 1: "calibrate example_generator default_analysis
     [(''stroke'', investment_target), (''cvd'', no_target)] no_port_target =
     bindE (calibrate example_generator default_analysis [(''cvd'', no_target)] no_port_target)
       (\<lambda>(A', ch). Inr (A', ch\<lparr>changed_per_intervention := [''stroke'', ''cvd'']\<rparr>))"
    using a [THEN conjunct1] by simp
  have 2: "calibrate example_generator default_analysis [(''stroke'', investment_target)]
      no_port_target =
     Inr (default_analysis,
          \<lparr> changed_per_intervention = [''stroke''], portfolio_first = False, adjusted = None \<rparr>)"
    using b [THEN conjunct2, THEN conjunct1] t by simp
  note c = a [THEN conjunct2, THEN conjunct2, rule_format,
      of "''cvd''" cvd_default "2075 / 10000" no_target, OF h]
  have 3: "\<exists>intr'.
      calibrate example_generator default_analysis [(''cvd'', no_target)] no_port_target =
        Inr (default_analysis\<lparr>self_parameters := store default_params ''cvd'' intr'\<rparr>,
             \<lparr> changed_per_intervention = [''cvd''], portfolio_first = False, adjusted = None \<rparr>) \<and>
      never_written cvd_default intr' \<and>
      cost_ppy_gamma intr' = cost_ppy_gamma cvd_default \<and>
      annual_event_rate intr' = annual_event_rate cvd_default \<and>
      rrr_beta intr' = rrr_beta cvd_default \<and>
      case_fatality_rate intr' = case_fatality_rate cvd_default \<and>
      qalys_lost_per_event intr' = qalys_lost_per_event cvd_default \<and>
      event_cost_gamma intr' =
        set_gamma_mean (fst (event_cost_gamma cvd_default))
          (max 0 (fst (event_cost_gamma cvd_default) * snd (event_cost_gamma cvd_default))) \<and>
      productivity_cost_gamma intr' =
        set_gamma_mean (fst (productivity_cost_gamma cvd_default))
          (max 0 (fst (productivity_cost_gamma cvd_default) *
                  snd (productivity_cost_gamma cvd_default)))"
    using c unfolding p by (simp only: n simp_thms conj_assoc)
  show ?thesis
    by (intro conjI 1 2 3 f1 t n h [THEN conjunct1] h [THEN conjunct2, THEN conjunct1]
        h [THEN conjunct2, THEN conjunct2, THEN conjunct1]
        h [THEN conjunct2, THEN conjunct2, THEN conjunct2, THEN conjunct1]
        h [THEN conjunct2, THEN conjunct2, THEN conjunct2, THEN conjunct2])
qed

text \<open>C5 as stated fails: on the loaded model a target for the unknown key \<open>stroke\<close> is
  no error; \<^verbatim>\<open>calibrate\<close> returns, the model as it was.\<close>

theorem unknown_key_counterexample:
  "\<exists>P. load_parameters = Inr P \<and>
       ''stroke'' \<notin> set (map fst (interventions P)) \<and>
       calibrate example_generator \<lparr> self_parameters = P, self_results_markov = None \<rparr>
         [(''stroke'', investment_target)] no_port_target =
       Inr (\<lparr> self_parameters = P, self_results_markov = None \<rparr>,
            \<lparr> changed_per_intervention = [''stroke''], portfolio_first = False, adjusted = None \<rparr>)"
proof -
  obtain P where load: "load_parameters = Inr P"
    and keys: "map fst (interventions P) =
      [''alzheimers'', ''cancer'', ''cvd'', ''diabetes'', ''osteoporosis'']"
    using load_parameters_cvd by (elim exE conjE)
  have unknown: "''stroke'' \<notin> set (map fst (interventions P))" by (simp add: keys)
  then have "calibrate example_generator \<lparr> self_parameters = P, self_results_markov = None \<rparr>
         [(''stroke'', investment_target)] no_port_target =
       Inr (\<lparr> self_parameters = P, self_results_markov = None \<rparr>,
            \<lparr> changed_per_intervention = [''stroke''], portfolio_first = False, adjusted = None \<rparr>)"
    by (simp add: calibrate_def no_port_target_def truthy_def)
  with load unknown show ?thesis by (intro exI [of _ P] conjI)
qed

end
